theory Spec2Isabelle
  imports Complex_Main
begin

section \<open>Configuration (src/config.js)\<close>

text \<open>
  The simulation-relevant entries of the \<open>CONFIG\<close> object, one constant per entry.
  JavaScript numbers that hold coordinates, speeds and times are modelled as reals;
  counters (score, lives, shield and speed levels, hit points) as integers; the wave
  index and the asteroid tier, which start at 0 and are only ever incremented, as
  naturals.
\<close>

definition CANVAS_W :: real where "CANVAS_W = 960"
definition CANVAS_H :: real where "CANVAS_H = 540"

definition SHIP_RADIUS :: real where "SHIP_RADIUS = 14"
definition SHIP_ACCEL :: real where "SHIP_ACCEL = 180"
definition SHIP_TURN_SPEED :: real where "SHIP_TURN_SPEED = pi"
definition SHIP_FRICTION :: real where "SHIP_FRICTION = 985 / 1000"
definition SHIP_MAX_SPEED :: real where "SHIP_MAX_SPEED = 340"
definition SHIP_FIRE_COOLDOWN :: real where "SHIP_FIRE_COOLDOWN = 18 / 100"
definition SHIP_RESPAWN_INVULN :: real where "SHIP_RESPAWN_INVULN = 3"
definition SHIP_INVULN_BLINK_INTERVAL :: real where "SHIP_INVULN_BLINK_INTERVAL = 15 / 100"
definition SHIP_LIVES :: int where "SHIP_LIVES = 3"
definition SHIP_MAX_LIVES :: int where "SHIP_MAX_LIVES = 5"
definition SHIP_SHIELD_MAX_LEVEL :: int where "SHIP_SHIELD_MAX_LEVEL = 2"
definition SHIP_SHIELD_HIT_INVULN :: real where "SHIP_SHIELD_HIT_INVULN = 1"
definition SPEED_POWERUP_MAX_LEVEL :: int where "SPEED_POWERUP_MAX_LEVEL = 5"
definition SPEED_POWERUP_ACCEL_BONUS_PER_LEVEL :: real where
  "SPEED_POWERUP_ACCEL_BONUS_PER_LEVEL = 45"
definition SPEED_POWERUP_MAX_SPEED_BONUS_PER_LEVEL :: real where
  "SPEED_POWERUP_MAX_SPEED_BONUS_PER_LEVEL = 55"

datatype weapon = MODE_SINGLE | MODE_TRIPLE | MODE_FIVE

definition WEAPON_SPREAD_RAD :: real where "WEAPON_SPREAD_RAD = pi / 12"

definition BULLET_SPEED :: real where "BULLET_SPEED = 520"
definition BULLET_LIFETIME :: real where "BULLET_LIFETIME = 12 / 10"
definition BULLET_RADIUS :: real where "BULLET_RADIUS = 2"

definition ASTEROID_SPEED_MIN :: real where "ASTEROID_SPEED_MIN = 30"
definition ASTEROID_SPEED_MAX :: real where "ASTEROID_SPEED_MAX = 120"
definition ASTEROID_SIZES :: "real list" where "ASTEROID_SIZES = [42, 28, 18]"
definition ASTEROID_SPLIT_COUNT :: nat where "ASTEROID_SPLIT_COUNT = 2"
definition ASTEROID_SPEED_GROWTH_PER_WAVE :: real where
  "ASTEROID_SPEED_GROWTH_PER_WAVE = 1 / 10"

definition UFO_RADIUS :: real where "UFO_RADIUS = 22"
definition UFO_SPEED :: real where "UFO_SPEED = 180"
definition UFO_SPRITES :: "string list" where
  "UFO_SPRITES = [''ufoBlue'', ''ufoGreen'', ''ufoRed'', ''ufoYellow'']"
definition UFO_HITS_TO_DESTROY :: int where "UFO_HITS_TO_DESTROY = 3"
definition UFO_SCORE_VALUE :: int where "UFO_SCORE_VALUE = 750"
definition UFO_FIRE_INTERVAL :: real where "UFO_FIRE_INTERVAL = 15 / 10"
definition UFO_LASER_SPEED :: real where "UFO_LASER_SPEED = 360"
definition UFO_LASER_LIFETIME :: real where "UFO_LASER_LIFETIME = 25 / 10"
definition UFO_OFFSCREEN_MARGIN :: real where "UFO_OFFSCREEN_MARGIN = 36"
definition UFO_SPAWN_TIMER_START :: real where "UFO_SPAWN_TIMER_START = 30"
definition UFO_SPAWN_TIMER_DECREMENT_PER_WAVE :: real where
  "UFO_SPAWN_TIMER_DECREMENT_PER_WAVE = 12 / 10"
definition UFO_SPAWN_TIMER_MIN :: real where "UFO_SPAWN_TIMER_MIN = 6"

definition WAVES_START_COUNT :: nat where "WAVES_START_COUNT = 4"
definition WAVES_GROWTH :: nat where "WAVES_GROWTH = 1"

definition SCORE_SMALL :: int where "SCORE_SMALL = 100"
definition SCORE_MED :: int where "SCORE_MED = 50"
definition SCORE_LARGE :: int where "SCORE_LARGE = 20"

definition POWERUP_RADIUS :: real where "POWERUP_RADIUS = 14"
definition POWERUP_SPEED_MIN :: real where "POWERUP_SPEED_MIN = 20"
definition POWERUP_SPEED_MAX :: real where "POWERUP_SPEED_MAX = 60"
definition POWERUP_OFFSCREEN_MARGIN :: real where "POWERUP_OFFSCREEN_MARGIN = 40"

datatype powerup_type = tripleShot | extraLife | shield | speed

datatype spawn_model = chance | interval

record powerup_rules =
  model :: spawn_model
  chancePerWave :: real
  everyNWaves :: int
  duplicateScore :: int

text \<open>\<open>CONFIG.POWERUP.types\<close>, in the order \<open>Object.entries\<close> enumerates it.\<close>

definition POWERUP_types :: "(powerup_type \<times> powerup_rules) list" where
  "POWERUP_types =
    [(tripleShot, \<lparr>model = chance, chancePerWave = 35 / 100, everyNWaves = 3,
                   duplicateScore = 5000\<rparr>),
     (extraLife, \<lparr>model = chance, chancePerWave = 35 / 100, everyNWaves = 5,
                  duplicateScore = 2000\<rparr>),
     (shield, \<lparr>model = chance, chancePerWave = 35 / 100, everyNWaves = 4,
               duplicateScore = 4000\<rparr>),
     (speed, \<lparr>model = chance, chancePerWave = 3 / 10, everyNWaves = 3,
              duplicateScore = 2500\<rparr>)]"

text \<open>\<open>CONFIG.POWERUP?.types?.[type]?.duplicateScore ?? 0\<close>\<close>

definition powerup_duplicateScore :: "powerup_type \<Rightarrow> int" where
  "powerup_duplicateScore t =
     (case map_of POWERUP_types t of None \<Rightarrow> 0 | Some rules \<Rightarrow> duplicateScore rules)"


section \<open>Math helpers (src/utils/math.js) and the random source\<close>

definition clamp :: "'a::linorder \<Rightarrow> 'a \<Rightarrow> 'a \<Rightarrow> 'a" where
  "clamp v a b = max a (min b v)"

text \<open>\<open>wrap = (v, max) => (v < 0 ? v + max : v >= max ? v - max : v)\<close>\<close>

definition wrap :: "real \<Rightarrow> real \<Rightarrow> real" where
  "wrap v mx = (if v < 0 then v + mx else if v \<ge> mx then v - mx else v)"

text \<open>
  The same line with the rounding of double arithmetic made explicit. JavaScript numbers
  are IEEE doubles: the comparisons are exact, and the sum or difference is the exact
  result rounded to a double. \<open>rnd\<close> stands for that rounding; \<open>wrap\<close> above is the
  case of exact arithmetic, which the tick model uses.
\<close>

definition wrap_fl :: "(real \<Rightarrow> real) \<Rightarrow> real \<Rightarrow> real \<Rightarrow> real" where
  "wrap_fl rnd v mx = (if v < 0 then rnd (v + mx) else if v \<ge> mx then rnd (v - mx) else v)"



text \<open>
  \<open>Math.random()\<close> is a global source of numbers; the model threads it explicitly as
  an infinite stream of draws, each call taking the head.
\<close>

type_synonym rng = "nat \<Rightarrow> real"

definition Math_random :: "rng \<Rightarrow> real \<times> rng" where
  "Math_random g = (g 0, \<lambda>n. g (Suc n))"

definition randRange :: "real \<Rightarrow> real \<Rightarrow> rng \<Rightarrow> real \<times> rng" where
  "randRange a b g = (let (u, g1) = Math_random g in (a + u * (b - a), g1))"

definition randSign :: "rng \<Rightarrow> real \<times> rng" where
  "randSign g = (let (u, g1) = Math_random g in (if u < 1 / 2 then - 1 else 1, g1))"

text \<open>\<open>Math.atan2(dy, dx)\<close> on reals (signed zeros are not distinguished).\<close>

definition atan2 :: "real \<Rightarrow> real \<Rightarrow> real" where
  "atan2 dy dx =
     (if dx > 0 then arctan (dy / dx)
      else if dx < 0 \<and> dy \<ge> 0 then arctan (dy / dx) + pi
      else if dx < 0 then arctan (dy / dx) - pi
      else if dy > 0 then pi / 2
      else if dy < 0 then - (pi / 2)
      else 0)"

definition hypot :: "real \<Rightarrow> real \<Rightarrow> real" where
  "hypot a b = sqrt (a * a + b * b)"


section \<open>Entities (src/entities)\<close>

text \<open>
  \<open>Entity\<close> is the base class; every subclass is a record extension, so that the
  physics and collision helpers work on any of them, as in the source.
\<close>

record entity =
  x :: real
  y :: real
  r :: real
  vx :: real
  vy :: real
  dead :: bool

subsection \<open>Physics.js and Collision.js\<close>

definition integrateAndWrap :: "'a entity_scheme \<Rightarrow> 'a entity_scheme" where
  "integrateAndWrap e = (let e1 = e\<lparr>x := wrap (x e) CANVAS_W\<rparr>
                          in e1\<lparr>y := wrap (y e1) CANVAS_H\<rparr>)"


definition circleHit :: "'a entity_scheme \<Rightarrow> 'b entity_scheme \<Rightarrow> bool" where
  "circleHit a b =
     (let dx = x a - x b;
          dy = y a - y b;
          rr = (r a + r b) * (r a + r b)
      in dx * dx + dy * dy \<le> rr)"

subsection \<open>Asteroid.js\<close>

datatype color = brown | grey

record asteroid = entity +
  sizeIndex :: nat
  colorVariant :: color
  speedMultiplier :: real
  spin :: real
  angle_a :: real

text \<open>
  \<open>CONFIG.ASTEROID.SIZES[sizeIndex]\<close>. Beyond the table JavaScript yields
  \<open>undefined\<close>; no caller reaches that (the spawner passes 0 and \<open>split\<close> guards
  the index), and the model returns 0 there.
\<close>

definition asteroid_radius :: "nat \<Rightarrow> real" where
  "asteroid_radius i = (if i < length ASTEROID_SIZES then ASTEROID_SIZES ! i else 0)"

text \<open>
  The constructor. The draws are taken in the order the source evaluates them: the
  colour (only when none is passed), the base speed, sign and factor of \<open>vx\<close>, sign
  and factor of \<open>vy\<close>, the spin, the angle.
\<close>

definition new_Asteroid ::
  "real \<Rightarrow> real \<Rightarrow> nat \<Rightarrow> color option \<Rightarrow> real \<Rightarrow> rng \<Rightarrow> asteroid \<times> rng" where
  "new_Asteroid px py si cv sm g0 =
     (let (col, g1) = (case cv of
                         Some c \<Rightarrow> (c, g0)
                       | None \<Rightarrow> (let (u, g) = Math_random g0
                                  in (if u < 1 / 2 then brown else grey, g)));
          (baseSpeed, g2) = randRange ASTEROID_SPEED_MIN ASTEROID_SPEED_MAX g1;
          spd = baseSpeed * sm;
          (sx, g3) = randSign g2;
          (ux, g4) = Math_random g3;
          (sy, g5) = randSign g4;
          (uy, g6) = Math_random g5;
          (sp, g7) = randRange (- 1) 1 g6;
          (ua, g8) = Math_random g7
      in (\<lparr>x = px, y = py, r = asteroid_radius si,
           vx = sx * spd * ux, vy = sy * spd * uy, dead = False,
           sizeIndex = si, colorVariant = col, speedMultiplier = sm,
           spin = sp, angle_a = ua * pi * 2\<rparr>, g8))"

text \<open>The \<open>for\<close> loop of \<open>split\<close>: \<open>n\<close> children still to be made.\<close>

fun split_loop :: "nat \<Rightarrow> asteroid \<Rightarrow> rng \<Rightarrow> asteroid list \<times> rng" where
  "split_loop 0 a g = ([], g)"
| "split_loop (Suc n) a g =
     (let (child, g1) = new_Asteroid (x a) (y a) (sizeIndex a + 1)
                          (Some (colorVariant a)) (speedMultiplier a) g;
          (parts, g2) = split_loop n a g1
      in (child # parts, g2))"

definition split :: "asteroid \<Rightarrow> rng \<Rightarrow> asteroid list \<times> rng" where
  "split a g = (if sizeIndex a + 1 \<ge> length ASTEROID_SIZES then ([], g)
                else split_loop ASTEROID_SPLIT_COUNT a g)"

definition Asteroid_update :: "real \<Rightarrow> asteroid \<Rightarrow> asteroid" where
  "Asteroid_update dt a =
     a\<lparr>x := x a + vx a * dt, y := y a + vy a * dt, angle_a := angle_a a + spin a * dt\<rparr>"

subsection \<open>Bullet.js\<close>

record bullet = entity +
  angle_b :: real
  lifetime :: real

definition new_Bullet :: "real \<Rightarrow> real \<Rightarrow> real \<Rightarrow> bullet" where
  "new_Bullet px py a =
     \<lparr>x = px, y = py, r = BULLET_RADIUS,
      vx = cos a * BULLET_SPEED, vy = sin a * BULLET_SPEED, dead = False,
      angle_b = a, lifetime = BULLET_LIFETIME\<rparr>"

definition Bullet_update :: "real \<Rightarrow> bullet \<Rightarrow> bullet" where
  "Bullet_update dt b =
     (let b1 = b\<lparr>x := x b + vx b * dt, y := y b + vy b * dt\<rparr>;
          b2 = b1\<lparr>lifetime := lifetime b1 - dt\<rparr>;
          b3 = (if lifetime b2 \<le> 0 then b2\<lparr>dead := True\<rparr> else b2)
      in if vx b3 \<noteq> 0 \<or> vy b3 \<noteq> 0 then b3\<lparr>angle_b := atan2 (vy b3) (vx b3)\<rparr> else b3)"

subsection \<open>Input.js\<close>

record input =
  keys :: "string set"
  justPressed :: "string set"
  justReleased :: "string set"

definition isDown :: "input \<Rightarrow> string \<Rightarrow> bool" where
  "isDown inp code = (code \<in> keys inp)"

definition pressed :: "input \<Rightarrow> string \<Rightarrow> bool" where
  "pressed inp code = (code \<in> justPressed inp)"

subsection \<open>Ship.js\<close>

record ship = entity +
  angle :: real
  cooldown :: real
  invuln :: real
  invulnElapsed :: real
  isInvulnVisible :: bool
  weaponMode :: weapon
  baseAccel :: real
  baseMaxSpeed :: real
  speedLevel :: int
  maxSpeedLevel :: int
  accelBonusPerLevel :: real
  maxSpeedBonusPerLevel :: real
  currentAccel :: real
  currentMaxSpeed :: real
  shieldLevel :: int
  spriteTier :: int

definition resetInvulnBlink :: "ship \<Rightarrow> ship" where
  "resetInvulnBlink s = s\<lparr>invulnElapsed := 0, isInvulnVisible := True\<rparr>"

definition recalculateSpeedStats :: "ship \<Rightarrow> ship" where
  "recalculateSpeedStats s =
     (let level = max 0 (speedLevel s)
      in s\<lparr>currentAccel := baseAccel s + of_int level * accelBonusPerLevel s,
           currentMaxSpeed := baseMaxSpeed s + of_int level * maxSpeedBonusPerLevel s\<rparr>)"

text \<open>\<open>setShieldLevel\<close> clamps to the fixed range 0..2.\<close>

definition setShieldLevel :: "int \<Rightarrow> ship \<Rightarrow> ship" where
  "setShieldLevel level s =
     (let clampedLevel = clamp level 0 2
      in s\<lparr>shieldLevel := clampedLevel, spriteTier := clampedLevel\<rparr>)"

text \<open>
  The constructor; \<open>invulnBlink\<close> is the option of the same name (default true).
  The fields are assigned in the source's order, the derived ones by the same helper
  calls.
\<close>

definition new_Ship :: "real \<Rightarrow> real \<Rightarrow> bool \<Rightarrow> ship" where
  "new_Ship px py invulnBlink =
     setShieldLevel 0
       (recalculateSpeedStats
         (resetInvulnBlink
           \<lparr>x = px, y = py, r = SHIP_RADIUS, vx = 0, vy = 0, dead = False,
            angle = - pi / 2, cooldown = 0,
            invuln = (if invulnBlink then SHIP_RESPAWN_INVULN else 0),
            invulnElapsed = 0, isInvulnVisible = True,
            weaponMode = MODE_SINGLE,
            baseAccel = SHIP_ACCEL, baseMaxSpeed = SHIP_MAX_SPEED,
            speedLevel = 0, maxSpeedLevel = max 0 SPEED_POWERUP_MAX_LEVEL,
            accelBonusPerLevel = SPEED_POWERUP_ACCEL_BONUS_PER_LEVEL,
            maxSpeedBonusPerLevel = SPEED_POWERUP_MAX_SPEED_BONUS_PER_LEVEL,
            currentAccel = 0, currentMaxSpeed = 0,
            shieldLevel = 0, spriteTier = 0\<rparr>))"

text \<open>
  The blink loop of \<open>update\<close>:
  \<open>while (invulnElapsed >= interval) { invulnElapsed -= interval; toggle }\<close>,
  entered only under \<open>interval > 0\<close>.
\<close>

function blink_loop :: "real \<Rightarrow> real \<Rightarrow> bool \<Rightarrow> real \<times> bool" where
  "blink_loop iv el vis =
     (if 0 < iv \<and> el \<ge> iv then blink_loop iv (el - iv) (\<not> vis) else (el, vis))"
  by pat_completeness auto
termination
proof (relation "measure (\<lambda>(iv, el, vis). nat \<lceil>el / iv\<rceil>)")
  show "wf (measure (\<lambda>(iv, el, vis). nat \<lceil>el / iv\<rceil>))" by simp
next
  fix iv el :: real and vis :: bool
  assume h: "0 < iv \<and> iv \<le> el"
  then have e: "(el - iv) / iv = el / iv - 1"
    by (simp add: diff_divide_distrib)
  from h have "1 \<le> el / iv" by simp
  then have "1 \<le> \<lceil>el / iv\<rceil>" by linarith
  moreover have "\<lceil>(el - iv) / iv\<rceil> = \<lceil>el / iv\<rceil> - 1"
    unfolding e by simp
  ultimately show "((iv, el - iv, \<not> vis), (iv, el, vis))
        \<in> measure (\<lambda>(iv, el, vis). nat \<lceil>el / iv\<rceil>)"
    by simp
qed

declare blink_loop.simps [simp del]

definition Ship_update :: "real \<Rightarrow> input \<Rightarrow> ship \<Rightarrow> ship" where
  "Ship_update dt inp s0 =
     (let accel = currentAccel s0;
          maxSpeed = currentMaxSpeed s0;
          s1 = (if isDown inp ''ArrowLeft'' \<or> isDown inp ''KeyA''
                then s0\<lparr>angle := angle s0 - SHIP_TURN_SPEED * dt\<rparr> else s0);
          s2 = (if isDown inp ''ArrowRight'' \<or> isDown inp ''KeyD''
                then s1\<lparr>angle := angle s1 + SHIP_TURN_SPEED * dt\<rparr> else s1);
          s3 = (if isDown inp ''ArrowUp'' \<or> isDown inp ''KeyW''
                then s2\<lparr>vx := vx s2 + cos (angle s2) * accel * dt,
                        vy := vy s2 + sin (angle s2) * accel * dt\<rparr>
                else s2);
          s4 = s3\<lparr>vx := vx s3 * SHIP_FRICTION, vy := vy s3 * SHIP_FRICTION\<rparr>;
          spd = hypot (vx s4) (vy s4);
          s5 = (if spd > maxSpeed
                then s4\<lparr>vx := vx s4 * (maxSpeed / spd), vy := vy s4 * (maxSpeed / spd)\<rparr>
                else s4);
          s6 = s5\<lparr>x := x s5 + vx s5 * dt, y := y s5 + vy s5 * dt\<rparr>;
          s7 = s6\<lparr>cooldown := max 0 (cooldown s6 - dt)\<rparr>;
          prevInvuln = invuln s7;
          s8 = s7\<lparr>invuln := max 0 (invuln s7 - dt)\<rparr>
      in if invuln s8 > 0 then
           (if SHIP_INVULN_BLINK_INTERVAL > 0 then
              (let (el, vis) = blink_loop SHIP_INVULN_BLINK_INTERVAL
                                 (invulnElapsed s8 + dt) (isInvulnVisible s8)
               in s8\<lparr>invulnElapsed := el, isInvulnVisible := vis\<rparr>)
            else s8\<lparr>invulnElapsed := 0, isInvulnVisible := True\<rparr>)
         else if prevInvuln > 0 then resetInvulnBlink s8
         else s8)"

definition canFire :: "ship \<Rightarrow> bool" where
  "canFire s = (cooldown s \<le> 0)"

definition didFire :: "ship \<Rightarrow> ship" where
  "didFire s = s\<lparr>cooldown := SHIP_FIRE_COOLDOWN\<rparr>"

text \<open>\<open>fire\<close> returns the bullets and, as its effect on the ship, the cooldown.\<close>

definition fire :: "ship \<Rightarrow> bullet list \<times> ship" where
  "fire s =
     (let baseAngle = angle s;
          noseX = x s + cos baseAngle * (r s + 2);
          noseY = y s + sin baseAngle * (r s + 2);
          spread = WEAPON_SPREAD_RAD;
          bullets =
            (if weaponMode s = MODE_FIVE then
               [new_Bullet noseX noseY (baseAngle - spread * 2),
                new_Bullet noseX noseY (baseAngle - spread),
                new_Bullet noseX noseY baseAngle,
                new_Bullet noseX noseY (baseAngle + spread),
                new_Bullet noseX noseY (baseAngle + spread * 2)]
             else if weaponMode s = MODE_TRIPLE then
               [new_Bullet noseX noseY (baseAngle - spread),
                new_Bullet noseX noseY baseAngle,
                new_Bullet noseX noseY (baseAngle + spread)]
             else [new_Bullet noseX noseY baseAngle])
      in (bullets, didFire s))"

definition increaseSpeedLevel :: "ship \<Rightarrow> bool \<times> ship" where
  "increaseSpeedLevel s =
     (if speedLevel s \<ge> maxSpeedLevel s then (False, s)
      else (True, recalculateSpeedStats (s\<lparr>speedLevel := speedLevel s + 1\<rparr>)))"

definition resetSpeedLevel :: "ship \<Rightarrow> ship" where
  "resetSpeedLevel s = recalculateSpeedStats (s\<lparr>speedLevel := 0\<rparr>)"

definition increaseShieldLevel :: "ship \<Rightarrow> bool \<times> ship" where
  "increaseShieldLevel s =
     (if shieldLevel s \<ge> SHIP_SHIELD_MAX_LEVEL then (False, s)
      else (True, s\<lparr>shieldLevel := min SHIP_SHIELD_MAX_LEVEL (shieldLevel s + 1)\<rparr>))"

definition decreaseShieldLevel :: "ship \<Rightarrow> bool \<times> ship" where
  "decreaseShieldLevel s =
     (if shieldLevel s \<le> 0 then (False, s)
      else (True, s\<lparr>shieldLevel := max 0 (shieldLevel s - 1)\<rparr>))"

subsection \<open>PowerUp.js\<close>

record powerup = entity +
  ptype :: powerup_type
  angle_p :: real
  spin_p :: real

definition new_PowerUp :: "real \<Rightarrow> real \<Rightarrow> powerup_type \<Rightarrow> rng \<Rightarrow> powerup \<times> rng" where
  "new_PowerUp px py t g0 =
     (let (spd, g1) = randRange POWERUP_SPEED_MIN POWERUP_SPEED_MAX g0;
          (sx, g2) = randSign g1;
          (ux, g3) = Math_random g2;
          (sy, g4) = randSign g3;
          (uy, g5) = Math_random g4;
          (ua, g6) = Math_random g5;
          (sp, g7) = randRange (- (8 / 10)) (8 / 10) g6
      in (\<lparr>x = px, y = py, r = POWERUP_RADIUS,
           vx = sx * spd * ux, vy = sy * spd * uy, dead = False,
           ptype = t, angle_p = ua * pi * 2, spin_p = sp\<rparr>, g7))"

definition PowerUp_update :: "real \<Rightarrow> powerup \<Rightarrow> powerup" where
  "PowerUp_update dt p =
     p\<lparr>x := x p + vx p * dt, y := y p + vy p * dt, angle_p := angle_p p + spin_p p * dt\<rparr>"

subsection \<open>UfoLaser.js and Ufo.js\<close>

record laser = entity +
  angle_l :: real
  lifetime_l :: real

definition new_UfoLaser :: "real \<Rightarrow> real \<Rightarrow> real \<Rightarrow> laser" where
  "new_UfoLaser px py a =
     \<lparr>x = px, y = py, r = 6,
      vx = cos a * UFO_LASER_SPEED, vy = sin a * UFO_LASER_SPEED, dead = False,
      angle_l = a, lifetime_l = UFO_LASER_LIFETIME\<rparr>"

definition UfoLaser_update :: "real \<Rightarrow> laser \<Rightarrow> laser" where
  "UfoLaser_update dt l =
     (let l1 = l\<lparr>x := x l + vx l * dt, y := y l + vy l * dt\<rparr>;
          l2 = l1\<lparr>lifetime_l := lifetime_l l1 - dt\<rparr>
      in if lifetime_l l2 \<le> 0 then l2\<lparr>dead := True\<rparr>
         else if x l2 < - UFO_OFFSCREEN_MARGIN \<or> x l2 > CANVAS_W + UFO_OFFSCREEN_MARGIN
                 \<or> y l2 < - UFO_OFFSCREEN_MARGIN \<or> y l2 > CANVAS_H + UFO_OFFSCREEN_MARGIN
         then l2\<lparr>dead := True\<rparr>
         else l2)"

record ufo = entity +
  spriteKey :: "string option"
  health :: int
  fireCooldown :: real

definition new_Ufo :: "real \<Rightarrow> real \<Rightarrow> real \<Rightarrow> real \<Rightarrow> string option \<Rightarrow> ufo" where
  "new_Ufo px py pvx pvy sk =
     \<lparr>x = px, y = py, r = UFO_RADIUS, vx = pvx, vy = pvy, dead = False,
      spriteKey = sk, health = UFO_HITS_TO_DESTROY, fireCooldown = UFO_FIRE_INTERVAL\<rparr>"

text \<open>\<open>Ufo.update(dt, target)\<close>: the lasers fired this tick and the updated craft.\<close>

definition Ufo_update :: "real \<Rightarrow> ship \<Rightarrow> ufo \<Rightarrow> laser list \<times> ufo" where
  "Ufo_update dt target u0 =
     (if dead u0 then ([], u0)
      else
        let u1 = u0\<lparr>x := x u0 + vx u0 * dt, y := y u0 + vy u0 * dt\<rparr>;
            margin = UFO_OFFSCREEN_MARGIN;
            u2 = (if vx u1 \<noteq> 0 then
                    (if x u1 < - margin then u1\<lparr>x := CANVAS_W + margin\<rparr>
                     else if x u1 > CANVAS_W + margin then u1\<lparr>x := - margin\<rparr>
                     else u1)
                  else u1);
            u3 = (if vy u2 \<noteq> 0 then
                    (if y u2 < - margin then u2\<lparr>y := CANVAS_H + margin\<rparr>
                     else if y u2 > CANVAS_H + margin then u2\<lparr>y := - margin\<rparr>
                     else u2)
                  else u2);
            u4 = u3\<lparr>fireCooldown := fireCooldown u3 - dt\<rparr>
        in if fireCooldown u4 \<le> 0 then
             ([new_UfoLaser (x u4) (y u4) (atan2 (y target - y u4) (x target - x u4))],
              u4\<lparr>fireCooldown := UFO_FIRE_INTERVAL\<rparr>)
           else ([], u4))"

definition takeHit :: "ufo \<Rightarrow> bool \<times> ufo" where
  "takeHit u =
     (if dead u then (False, u)
      else let u1 = u\<lparr>health := health u - 1\<rparr>
           in if health u1 \<le> 0 then (True, u1\<lparr>dead := True\<rparr>) else (False, u1))"


section \<open>The run state and the spawner (src/core/Game.js, src/systems/Spawner.js)\<close>

datatype game_mode = MENU | PLAY | GAME_OVER

text \<open>
  The \<open>Game\<close> object: the fields of \<open>this.state\<close> under their own names, then the
  two fields the \<open>Game\<close> keeps beside the state (\<open>this.highScore\<close> as
  \<open>game_highScore\<close>, \<open>this._lastPersistedHighScore\<close>) and the random source.
  Renderer, audio, persistence and DOM events are collaborators outside the simulation
  and are not part of the model. \<open>null\<close> is \<open>None\<close>.
\<close>

record game =
  mode :: game_mode
  wave :: nat
  score :: int
  lives :: int
  highScore :: int
  didBeatHighScore :: bool
  ship :: ship
  bullets :: "bullet list"
  asteroids :: "asteroid list"
  powerups :: "powerup list"
  powerupsCollected :: int
  ufo :: "ufo option"
  ufoBullets :: "laser list"
  ufoSpawnTimer :: "real option"
  ufoSpawnedThisWave :: bool
  game_highScore :: int
  lastPersistedHighScore :: int
  random :: rng

subsection \<open>Spawner.js\<close>

definition randomEdgeSpawn :: "real \<Rightarrow> real \<Rightarrow> real \<Rightarrow> rng \<Rightarrow> (real \<times> real) \<times> rng" where
  "randomEdgeSpawn W H margin g0 =
     (let (u, g1) = Math_random g0;
          edge = \<lfloor>u * 4\<rfloor>;
          (p1, g2) = (if edge = 0 then (let (v, g) = Math_random g1 in ((- margin, v * H), g))
                      else ((0, 0), g1));
          (p2, g3) = (if edge = 1 then (let (v, g) = Math_random g2 in ((W + margin, v * H), g))
                      else (p1, g2));
          (p3, g4) = (if edge = 2 then (let (v, g) = Math_random g3 in ((v * W, - margin), g))
                      else (p2, g3));
          (p4, g5) = (if edge = 3 then (let (v, g) = Math_random g4 in ((v * W, H + margin), g))
                      else (p3, g4))
      in (p4, g5))"

text \<open>One iteration of the loop of \<open>spawnWave\<close>, then the loop (\<open>n\<close> iterations left).\<close>

definition spawnWave_body :: "real \<Rightarrow> game \<Rightarrow> game" where
  "spawnWave_body sm S =
     (let ((px, py), g1) = randomEdgeSpawn CANVAS_W CANVAS_H POWERUP_OFFSCREEN_MARGIN (random S);
          (u, g2) = Math_random g1;
          cv = (if u < 1 / 2 then brown else grey);
          (a, g3) = new_Asteroid px py 0 (Some cv) sm g2
      in S\<lparr>asteroids := asteroids S @ [a], random := g3\<rparr>)"

fun spawnWave_loop :: "nat \<Rightarrow> real \<Rightarrow> game \<Rightarrow> game" where
  "spawnWave_loop 0 sm S = S"
| "spawnWave_loop (Suc n) sm S = spawnWave_loop n sm (spawnWave_body sm S)"

definition spawnWave :: "game \<Rightarrow> game" where
  "spawnWave S =
     (let count = WAVES_START_COUNT + wave S * WAVES_GROWTH;
          sm = 1 + real (wave S) * ASTEROID_SPEED_GROWTH_PER_WAVE
      in spawnWave_loop count sm S)"

definition shouldSpawnType :: "powerup_rules \<Rightarrow> nat \<Rightarrow> rng \<Rightarrow> bool \<times> rng" where
  "shouldSpawnType rules w g0 =
     (case model rules of
        chance \<Rightarrow> (let ch = max 0 (min 1 (chancePerWave rules));
                       (u, g1) = Math_random g0
                   in (u < ch, g1))
      | interval \<Rightarrow> (let n = everyNWaves rules
                     in if n \<le> 0 then (False, g0) else (int w mod n = 0, g0)))"

fun maybeSpawnPowerUp_loop :: "(powerup_type \<times> powerup_rules) list \<Rightarrow> game \<Rightarrow> game" where
  "maybeSpawnPowerUp_loop [] S = S"
| "maybeSpawnPowerUp_loop ((t, rules) # rest) S =
     (let (ok, g1) = shouldSpawnType rules (wave S) (random S)
      in if \<not> ok then maybeSpawnPowerUp_loop rest (S\<lparr>random := g1\<rparr>)
         else
           let ((px, py), g2) = randomEdgeSpawn CANVAS_W CANVAS_H POWERUP_OFFSCREEN_MARGIN g1;
               (p, g3) = new_PowerUp px py t g2
           in maybeSpawnPowerUp_loop rest (S\<lparr>powerups := powerups S @ [p], random := g3\<rparr>))"

definition maybeSpawnPowerUp :: "game \<Rightarrow> game" where
  "maybeSpawnPowerUp S = maybeSpawnPowerUp_loop POWERUP_types S"

subsection \<open>Collision.js, on the arrays of the state\<close>

text \<open>
  Both \<open>findShipAsteroidHit\<close> and the inner loop of \<open>forEachBulletAsteroidHit\<close>
  scan the asteroids in order, skip the dead ones and stop at the first that overlaps.
  The source returns the object; the model returns its index in the array.
\<close>

fun firstHit_from :: "'a entity_scheme \<Rightarrow> asteroid list \<Rightarrow> nat \<Rightarrow> nat option" where
  "firstHit_from e [] i = None"
| "firstHit_from e (a # rest) i =
     (if dead a then firstHit_from e rest (Suc i)
      else if circleHit e a then Some i
      else firstHit_from e rest (Suc i))"

definition findShipAsteroidHit :: "ship \<Rightarrow> asteroid list \<Rightarrow> nat option" where
  "findShipAsteroidHit s as = firstHit_from s as 0"

text \<open>
  \<open>forEachBulletAsteroidHit(S.bullets, S.asteroids, onHit)\<close>. The callback mutates
  the very arrays being scanned, so each bullet reads the state its predecessors left.
  The callback never changes the number of bullets, so the indices are fixed up front;
  the inner scan ends at the \<open>break\<close> right after the callback.
\<close>

definition bulletAsteroid_step :: "(nat \<Rightarrow> nat \<Rightarrow> game \<Rightarrow> game) \<Rightarrow> nat \<Rightarrow> game \<Rightarrow> game" where
  "bulletAsteroid_step onHit i S =
     (let b = bullets S ! i
      in if dead b then S
         else case firstHit_from b (asteroids S) 0 of
                None \<Rightarrow> S
              | Some j \<Rightarrow> onHit i j S)"

definition forEachBulletAsteroidHit :: "(nat \<Rightarrow> nat \<Rightarrow> game \<Rightarrow> game) \<Rightarrow> game \<Rightarrow> game" where
  "forEachBulletAsteroidHit onHit S =
     fold (bulletAsteroid_step onHit) [0..<length (bullets S)] S"

subsection \<open>Game.js\<close>

definition updateHighScore :: "int \<Rightarrow> game \<Rightarrow> game" where
  "updateHighScore sc G =
     (if sc \<le> game_highScore G then G
      else
        let G1 = G\<lparr>game_highScore := sc, highScore := sc, didBeatHighScore := True\<rparr>
        in if sc > lastPersistedHighScore G1 then G1\<lparr>lastPersistedHighScore := sc\<rparr>
           else G1)"

definition createInitialState :: "game \<Rightarrow> game" where
  "createInitialState G =
     G\<lparr>mode := MENU, wave := 0, score := 0, lives := SHIP_LIVES,
       highScore := game_highScore G, didBeatHighScore := False,
       ship := resetSpeedLevel (new_Ship (CANVAS_W / 2) (CANVAS_H / 2) False),
       bullets := [], asteroids := [], powerups := [], powerupsCollected := 0,
       ufo := None, ufoBullets := [], ufoSpawnTimer := None,
       ufoSpawnedThisWave := False\<rparr>"

definition getUfoSpawnDelayForWave :: "nat \<Rightarrow> real option" where
  "getUfoSpawnDelayForWave w =
     (let delay = UFO_SPAWN_TIMER_START - real w * UFO_SPAWN_TIMER_DECREMENT_PER_WAVE
      in Some (max UFO_SPAWN_TIMER_MIN delay))"

definition resetUfoStateForWave :: "game \<Rightarrow> game" where
  "resetUfoStateForWave S =
     (let S1 = S\<lparr>ufo := None, ufoBullets := [], ufoSpawnedThisWave := False\<rparr>
      in S1\<lparr>ufoSpawnTimer := getUfoSpawnDelayForWave (wave S1)\<rparr>)"

definition spawnUfoForCurrentWave :: "game \<Rightarrow> game" where
  "spawnUfoForCurrentWave S =
     (let (u0, g1) = Math_random (random S);
          k = \<lfloor>u0 * real (length UFO_SPRITES)\<rfloor>;
          sk = (if 0 \<le> k \<and> k < int (length UFO_SPRITES)
                then Some (UFO_SPRITES ! nat k) else None);
          margin = UFO_OFFSCREEN_MARGIN;
          spd = UFO_SPEED;
          (u1, g2) = Math_random g1;
          horizontal = (u1 < 1 / 2);
          (u2, g3) = Math_random g2;
          (u3, g4) = Math_random g3;
          u = (if horizontal then
                 (let fromLeft = (u3 < 1 / 2)
                  in new_Ufo (if fromLeft then - margin else CANVAS_W + margin) (u2 * CANVAS_H)
                       (if fromLeft then spd else - spd) 0 sk)
               else
                 (let fromTop = (u3 < 1 / 2)
                  in new_Ufo (u2 * CANVAS_W) (if fromTop then - margin else CANVAS_H + margin)
                       0 (if fromTop then spd else - spd) sk))
      in S\<lparr>ufo := Some u, ufoSpawnedThisWave := True, ufoSpawnTimer := None, random := g4\<rparr>)"

definition startGame :: "game \<Rightarrow> game" where
  "startGame G =
     (if mode G \<noteq> MENU then G
      else
        let S1 = G\<lparr>mode := PLAY, wave := 0, score := 0, lives := SHIP_LIVES,
                   highScore := game_highScore G, didBeatHighScore := False\<rparr>;
            S2 = S1\<lparr>ship := resetSpeedLevel (new_Ship (CANVAS_W / 2) (CANVAS_H / 2) False)\<rparr>;
            S3 = S2\<lparr>bullets := [], asteroids := []\<rparr>
        in resetUfoStateForWave (maybeSpawnPowerUp (spawnWave S3)))"

definition reset :: "game \<Rightarrow> game" where
  "reset G =
     (let S1 = createInitialState G;
          S2 = S1\<lparr>mode := PLAY\<rparr>
      in resetUfoStateForWave (maybeSpawnPowerUp (spawnWave S2)))"

definition returnToMenu :: "game \<Rightarrow> game" where
  "returnToMenu G = createInitialState G"

text \<open>
  \<open>damageShip\<close>, the closure of \<open>update\<close>. Its options are the callback
  \<open>onShieldAbsorb\<close> (absent: \<open>None\<close>) and \<open>scoreBonus\<close> (default 0); it returns
  whether the ship survived.
\<close>

definition damageShip :: "(game \<Rightarrow> game) option \<Rightarrow> int \<Rightarrow> game \<Rightarrow> bool \<times> game" where
  "damageShip onShieldAbsorb scoreBonus S =
     (if shieldLevel (ship S) > 0 then
        (let S1 = (case onShieldAbsorb of None \<Rightarrow> S | Some f \<Rightarrow> f S);
             S2 = (if scoreBonus \<noteq> 0
                   then (let S' = S1\<lparr>score := score S1 + scoreBonus\<rparr>
                         in updateHighScore (score S') S')
                   else S1);
             S3 = S2\<lparr>ship := snd (decreaseShieldLevel (ship S2))\<rparr>;
             S4 = S3\<lparr>ship := (ship S3)\<lparr>invuln := SHIP_SHIELD_HIT_INVULN\<rparr>\<rparr>;
             S5 = S4\<lparr>ship := resetInvulnBlink (ship S4)\<rparr>
         in (True, S5))
      else
        (let S1 = S\<lparr>lives := lives S - 1\<rparr>
         in if lives S1 \<le> 0 then
              (let S2 = S1\<lparr>mode := GAME_OVER\<rparr>
               in (False, updateHighScore (score S2) S2))
            else
              (let S2 = S1\<lparr>ship := new_Ship (CANVAS_W / 2) (CANVAS_H / 2) True\<rparr>;
                   S3 = S2\<lparr>ship := resetSpeedLevel (ship S2)\<rparr>
               in (True, S3))))"

definition tierScore :: "nat \<Rightarrow> int" where
  "tierScore idx = (if idx = 2 then SCORE_SMALL else if idx = 1 then SCORE_MED else SCORE_LARGE)"

text \<open>The callback \<open>_handleBulletCollisions\<close> passes to \<open>forEachBulletAsteroidHit\<close>.\<close>

definition bulletAsteroid_onHit :: "nat \<Rightarrow> nat \<Rightarrow> game \<Rightarrow> game" where
  "bulletAsteroid_onHit i j S =
     (let S1 = S\<lparr>bullets := (bullets S)[i := (bullets S ! i)\<lparr>dead := True\<rparr>]\<rparr>;
          S2 = S1\<lparr>asteroids := (asteroids S1)[j := (asteroids S1 ! j)\<lparr>dead := True\<rparr>]\<rparr>;
          a = asteroids S2 ! j;
          S3 = S2\<lparr>score := score S2 + tierScore (sizeIndex a)\<rparr>;
          S4 = updateHighScore (score S3) S3;
          (parts, g1) = split a (random S4)
      in S4\<lparr>asteroids := asteroids S4 @ parts, random := g1\<rparr>)"

text \<open>The second loop of \<open>_handleBulletCollisions\<close>: bullets against the enemy craft.\<close>

definition bulletUfo_step :: "nat \<Rightarrow> game \<Rightarrow> game" where
  "bulletUfo_step i S =
     (let b = bullets S ! i
      in if dead b then S
         else case ufo S of
                None \<Rightarrow> S
              | Some u \<Rightarrow>
                  if \<not> dead u \<and> circleHit b u then
                    (let S1 = S\<lparr>bullets := (bullets S)[i := b\<lparr>dead := True\<rparr>]\<rparr>;
                         (destroyed, u1) = takeHit u;
                         S2 = S1\<lparr>ufo := Some u1\<rparr>
                     in if destroyed then
                          (let S3 = S2\<lparr>score := score S2 + UFO_SCORE_VALUE\<rparr>;
                               S4 = updateHighScore (score S3) S3
                           in S4\<lparr>ufo := None\<rparr>)
                        else S2)
                  else S)"

definition handleBulletCollisions :: "game \<Rightarrow> game" where
  "handleBulletCollisions S =
     (let S1 = forEachBulletAsteroidHit bulletAsteroid_onHit S
      in fold bulletUfo_step [0..<length (bullets S1)] S1)"

text \<open>
  The laser loop of \<open>_handleShipHazardCollisions\<close>, from index \<open>i\<close>; the three
  \<open>continue\<close>s go on with the next laser, a hit ends the loop (\<open>return false\<close> or
  \<open>break\<close>). The result is (returned false, state).
\<close>

function laser_loop :: "nat \<Rightarrow> game \<Rightarrow> bool \<times> game" where
  "laser_loop i S =
     (if i \<ge> length (ufoBullets S) then (False, S)
      else
        let l = ufoBullets S ! i
        in if dead l then laser_loop (Suc i) S
           else if \<not> circleHit (ship S) l then laser_loop (Suc i) S
           else if invuln (ship S) > 0 then laser_loop (Suc i) S
           else
             (let S1 = S\<lparr>ufoBullets := (ufoBullets S)[i := l\<lparr>dead := True\<rparr>]\<rparr>;
                  (survived, S2) = damageShip None 0 S1
              in if \<not> survived \<or> mode S2 = GAME_OVER then (True, S2) else (False, S2)))"
  by pat_completeness auto
termination
  by (relation "measure (\<lambda>(i, S). length (ufoBullets S) - i)") auto

declare laser_loop.simps [simp del]

text \<open>
  The callback \<open>_handleShipHazardCollisions\<close> passes as \<open>onShieldAbsorb\<close>:
  \<open>hitAsteroid.dead = true\<close>, the asteroid being the one at index \<open>j\<close>.
\<close>

definition asteroid_onShieldAbsorb :: "nat \<Rightarrow> game \<Rightarrow> game" where
  "asteroid_onShieldAbsorb j T =
     T\<lparr>asteroids := (asteroids T)[j := (asteroids T ! j)\<lparr>dead := True\<rparr>]\<rparr>"

text \<open>
  \<open>_handleShipHazardCollisions\<close>: whether the ship survived, and the state. Its
  first two blocks, the asteroid and the enemy craft, each say whether they ended the
  function with \<open>return false\<close>.
\<close>

definition shipAsteroid_block :: "game \<Rightarrow> bool \<times> game" where
  "shipAsteroid_block S =
     (case findShipAsteroidHit (ship S) (asteroids S) of
        None \<Rightarrow> (False, S)
      | Some j \<Rightarrow>
          (let idx = sizeIndex (asteroids S ! j);
               scoreBonus = (if idx = 2 then SCORE_SMALL
                             else if idx = 1 then SCORE_MED else SCORE_LARGE);
               (survived, S1) = damageShip (Some (asteroid_onShieldAbsorb j)) scoreBonus S
           in (\<not> survived \<or> mode S1 = GAME_OVER, S1)))"

definition shipUfo_block :: "game \<Rightarrow> bool \<times> game" where
  "shipUfo_block S =
     (case ufo S of
        None \<Rightarrow> (False, S)
      | Some u \<Rightarrow>
          if \<not> dead u \<and> circleHit (ship S) u then
            (let (survived, S1) = damageShip None 0 S
             in (\<not> survived \<or> mode S1 = GAME_OVER, S1))
          else (False, S))"

definition handleShipHazardCollisions :: "game \<Rightarrow> bool \<times> game" where
  "handleShipHazardCollisions S =
     (let (ret1, S1) = shipAsteroid_block S
      in if ret1 then (False, S1)
         else if mode S1 = GAME_OVER then (False, S1)
         else if invuln (ship S1) \<le> 0 then
           (let (ret2, S2) = shipUfo_block S1
            in if ret2 then (False, S2)
               else if invuln (ship S2) \<le> 0 then
                 (let (ret3, S3) = laser_loop 0 S2
                  in if ret3 then (False, S3) else (True, S3))
               else (True, S2))
         else (True, S1))"

text \<open>One iteration of the loop of \<open>_handlePowerupCollisions\<close>, for power-up \<open>i\<close>.\<close>

definition addBonus :: "int \<Rightarrow> game \<Rightarrow> game" where
  "addBonus bonus S = (let S1 = S\<lparr>score := score S + bonus\<rparr> in updateHighScore (score S1) S1)"

definition powerup_step :: "nat \<Rightarrow> game \<Rightarrow> game" where
  "powerup_step i S =
     (let pu = powerups S ! i
      in if \<not> dead pu \<and> circleHit (ship S) pu then
           (let S1 = S\<lparr>powerups := (powerups S)[i := pu\<lparr>dead := True\<rparr>]\<rparr>;
                S2 = S1\<lparr>powerupsCollected := powerupsCollected S1 + 1\<rparr>
            in case ptype pu of
                 tripleShot \<Rightarrow>
                   if weaponMode (ship S2) = MODE_FIVE
                   then addBonus (powerup_duplicateScore tripleShot) S2
                   else if weaponMode (ship S2) = MODE_TRIPLE
                   then S2\<lparr>ship := (ship S2)\<lparr>weaponMode := MODE_FIVE\<rparr>\<rparr>
                   else S2\<lparr>ship := (ship S2)\<lparr>weaponMode := MODE_TRIPLE\<rparr>\<rparr>
               | extraLife \<Rightarrow>
                   if lives S2 < SHIP_MAX_LIVES
                   then S2\<lparr>lives := min SHIP_MAX_LIVES (lives S2 + 1)\<rparr>
                   else addBonus (powerup_duplicateScore extraLife) S2
               | shield \<Rightarrow>
                   if shieldLevel (ship S2) < SHIP_SHIELD_MAX_LEVEL then
                     (let (ok, s1) = increaseShieldLevel (ship S2);
                          S3 = S2\<lparr>ship := s1\<rparr>
                      in if ok then S3 else addBonus (powerup_duplicateScore shield) S3)
                   else addBonus (powerup_duplicateScore shield) S2
               | speed \<Rightarrow>
                   (let (ok, s1) = increaseSpeedLevel (ship S2);
                        S3 = S2\<lparr>ship := s1\<rparr>
                    in if \<not> ok then addBonus (powerup_duplicateScore speed) S3 else S3))
         else S)"

definition handlePowerupCollisions :: "game \<Rightarrow> game" where
  "handlePowerupCollisions S = fold powerup_step [0..<length (powerups S)] S"

text \<open>
  \<open>update(dt)\<close>. The PLAY branch is cut where the source's comments cut it. First the
  movement part, one function per commented block, each reading the state its
  predecessor left: ship controls, shooting, entity-local updates, the enemy craft's
  timer and behaviour, its lasers, and the wrap.
\<close>

definition tick_ship :: "real \<Rightarrow> input \<Rightarrow> game \<Rightarrow> game" where
  "tick_ship dt inp S = S\<lparr>ship := Ship_update dt inp (ship S)\<rparr>"

definition tick_shooting :: "input \<Rightarrow> game \<Rightarrow> game" where
  "tick_shooting inp S =
     (if (isDown inp ''Space'' \<or> pressed inp ''KeyJ'') \<and> canFire (ship S)
      then (let (bs, s1) = fire (ship S)
            in S\<lparr>ship := s1, bullets := bullets S @ bs\<rparr>)
      else S)"

definition tick_entities :: "real \<Rightarrow> game \<Rightarrow> game" where
  "tick_entities dt S =
     S\<lparr>bullets := map (Bullet_update dt) (bullets S),
       asteroids := map (Asteroid_update dt) (asteroids S),
       powerups := map (PowerUp_update dt) (powerups S)\<rparr>"

definition tick_ufoTimer :: "real \<Rightarrow> game \<Rightarrow> game" where
  "tick_ufoTimer dt S =
     (if ufo S = None \<and> \<not> ufoSpawnedThisWave S then
        (case ufoSpawnTimer S of
           None \<Rightarrow> S
         | Some t \<Rightarrow>
             (let S1 = S\<lparr>ufoSpawnTimer := Some (max 0 (t - dt))\<rparr>
              in if max 0 (t - dt) \<le> 0 then spawnUfoForCurrentWave S1 else S1))
      else S)"

definition tick_ufo :: "real \<Rightarrow> game \<Rightarrow> game" where
  "tick_ufo dt S =
     (case ufo S of
        None \<Rightarrow> S
      | Some u \<Rightarrow>
          (let (lasers, u1) = Ufo_update dt (ship S) u;
               S1 = S\<lparr>ufo := Some u1\<rparr>;
               S2 = (if lasers \<noteq> [] then S1\<lparr>ufoBullets := ufoBullets S1 @ lasers\<rparr> else S1)
           in if dead u1 then S2\<lparr>ufo := None\<rparr> else S2))"

definition tick_lasers :: "real \<Rightarrow> game \<Rightarrow> game" where
  "tick_lasers dt S = S\<lparr>ufoBullets := map (UfoLaser_update dt) (ufoBullets S)\<rparr>"

definition tick_wrap :: "game \<Rightarrow> game" where
  "tick_wrap S =
     S\<lparr>ship := integrateAndWrap (ship S),
       bullets := map integrateAndWrap (bullets S),
       asteroids := map integrateAndWrap (asteroids S),
       powerups := map integrateAndWrap (powerups S)\<rparr>"

definition tick_movement :: "real \<Rightarrow> input \<Rightarrow> game \<Rightarrow> game" where
  "tick_movement dt inp S =
     tick_wrap (tick_lasers dt (tick_ufo dt (tick_ufoTimer dt
       (tick_entities dt (tick_shooting inp (tick_ship dt inp S))))))"

text \<open>
  \<open>simulate\<close> runs the PLAY branch from the ship controls to the last
  \<open>updateHighScore\<close> and says whether it got there (\<open>False\<close>: one of the early
  \<open>return\<close>s was taken); \<open>cleanup\<close> filters the dead entities; \<open>progression\<close> is
  the end-of-tick wave check.
\<close>

definition simulate :: "real \<Rightarrow> input \<Rightarrow> game \<Rightarrow> bool \<times> game" where
  "simulate dt inp S0 =
     (let S8 = handleBulletCollisions (tick_movement dt inp S0)
      in if mode S8 = GAME_OVER then (False, S8)
         else
           let (stop, S9) =
                 (if invuln (ship S8) \<le> 0 then
                    (let (shipSurvived, S') = handleShipHazardCollisions S8
                     in (\<not> shipSurvived \<or> mode S' = GAME_OVER, S'))
                  else (False, S8))
           in if stop then (False, S9)
              else
                let S10 = handlePowerupCollisions S9
                in (True, updateHighScore (score S10) S10))"

definition cleanup :: "game \<Rightarrow> game" where
  "cleanup S =
     S\<lparr>bullets := filter (\<lambda>b. \<not> dead b) (bullets S),
       asteroids := filter (\<lambda>a. \<not> dead a) (asteroids S),
       powerups := filter (\<lambda>p. \<not> dead p) (powerups S),
       ufoBullets := filter (\<lambda>l. \<not> dead l) (ufoBullets S)\<rparr>"

definition progression :: "game \<Rightarrow> game" where
  "progression S =
     (if length (asteroids S) = 0 \<and> mode S = PLAY
      then resetUfoStateForWave (maybeSpawnPowerUp (spawnWave (S\<lparr>wave := wave S + 1\<rparr>)))
      else S)"

definition update :: "real \<Rightarrow> input \<Rightarrow> game \<Rightarrow> game" where
  "update dt inp G =
     (if mode G = MENU then
        (if pressed inp ''Enter'' \<or> pressed inp ''Space'' then startGame G else G)
      else if mode G = GAME_OVER then
        (if pressed inp ''Enter'' then reset G else G)
      else
        let (reached, S1) = simulate dt inp G
        in if reached then progression (cleanup S1) else S1)"

text \<open>
  The constructor of \<open>Game\<close>, as far as the simulation goes
  (\<open>_initStateAndShip\<close>): both high-score fields 0 and a fresh initial state.
\<close>

definition new_Game :: "rng \<Rightarrow> game" where
  "new_Game g =
     createInitialState
       \<lparr>mode = MENU, wave = 0, score = 0, lives = 0, highScore = 0, didBeatHighScore = False,
        ship = new_Ship 0 0 False, bullets = [], asteroids = [], powerups = [],
        powerupsCollected = 0, ufo = None, ufoBullets = [], ufoSpawnTimer = None,
        ufoSpawnedThisWave = False,
        game_highScore = 0, lastPersistedHighScore = 0, random = g\<rparr>"



section \<open>Concrete inputs\<close>

definition no_input :: input where
  "no_input = \<lparr>keys = {}, justPressed = {}, justReleased = {}\<rparr>"

definition half_rng :: rng where
  "half_rng = (\<lambda>n. 1 / 2)"

definition rock :: "real \<Rightarrow> real \<Rightarrow> nat \<Rightarrow> asteroid" where
  "rock px py si =
     \<lparr>x = px, y = py, r = asteroid_radius si, vx = 0, vy = 0, dead = False,
      sizeIndex = si, colorVariant = grey, speedMultiplier = 1, spin = 0, angle_a = 0\<rparr>"





definition five_ship :: ship where
  "five_ship = (new_Ship 480 270 False)\<lparr>weaponMode := MODE_FIVE\<rparr>"

text \<open>A run in progress with nothing on the field, shield 0 and three lives.\<close>

definition play_state :: game where
  "play_state = (new_Game half_rng)\<lparr>mode := PLAY, ufoSpawnedThisWave := True\<rparr>"

text \<open>The same with one life left, and the state after the last life is lost.\<close>

definition last_life_state :: game where
  "last_life_state = play_state\<lparr>lives := 1\<rparr>"

definition over_state :: game where
  "over_state = play_state\<lparr>mode := GAME_OVER, lives := 0\<rparr>"

text \<open>
  A ship with shield level 1 and no invulnerability, sitting on a large (tier-0) rock;
  then the same ship overlapping a small rock that comes first in the array, the large
  rock, and with a medium rock far away.
\<close>

definition ram_state :: game where
  "ram_state = play_state\<lparr>ship := (new_Ship 480 270 False)\<lparr>shieldLevel := 1\<rparr>,
                          asteroids := [rock 490 270 0]\<rparr>"

definition crowded_state :: game where
  "crowded_state = play_state\<lparr>ship := (new_Ship 480 270 False)\<lparr>shieldLevel := 1\<rparr>,
                              asteroids := [rock 480 270 2, rock 490 270 0, rock 100 100 1]\<rparr>"


text \<open>
  A run in progress whose stored high score, 5000, comes from an earlier run: a bullet
  is about to hit a small rock, and a large rock drifts far from the ship.
\<close>

definition veteran_state :: game where
  "veteran_state = play_state\<lparr>highScore := 5000, game_highScore := 5000,
       lastPersistedHighScore := 5000,
       bullets := [new_Bullet 100 100 0],
       asteroids := [rock 100 100 2, rock 700 400 0]\<rparr>"

text \<open>
  Three bullets and two rocks: the first bullet overlaps both rocks, the second is
  already dead, the third overlaps nothing.
\<close>

definition pierce_state :: game where
  "pierce_state = play_state\<lparr>
       bullets := [new_Bullet 100 100 0, (new_Bullet 100 100 0)\<lparr>dead := True\<rparr>,
                   new_Bullet 800 500 0],
       asteroids := [rock 100 100 1, rock 105 100 0]\<rparr>"


section \<open>The invariant of a PLAY tick\<close>

text \<open>
  The relation every step of the PLAY branch maintains between the state it receives
  and the state it leaves: the wave index is the same, the score has not dropped, and if
  the two high-score fields agreed and were the larger of \<open>h0\<close> and the score before,
  they still are after. It is the invariant the proofs about waves and scores run on.
\<close>

definition advances :: "int \<Rightarrow> game \<Rightarrow> game \<Rightarrow> bool" where
  "advances h0 S T \<longleftrightarrow>
     wave T = wave S \<and> score S \<le> score T
     \<and> (highScore S = game_highScore S \<and> game_highScore S = max h0 (score S)
        \<longrightarrow> highScore T = game_highScore T \<and> game_highScore T = max h0 (score T))"






section \<open>Properties\<close>

subsection \<open>Evaluation and helper lemmas\<close>

lemmas config_values =
  CANVAS_W_def CANVAS_H_def SHIP_RADIUS_def SHIP_ACCEL_def SHIP_MAX_SPEED_def
  SHIP_RESPAWN_INVULN_def SHIP_LIVES_def SHIP_SHIELD_HIT_INVULN_def
  SPEED_POWERUP_MAX_LEVEL_def SPEED_POWERUP_ACCEL_BONUS_PER_LEVEL_def
  SPEED_POWERUP_MAX_SPEED_BONUS_PER_LEVEL_def
  SCORE_SMALL_def SCORE_MED_def SCORE_LARGE_def ASTEROID_SIZES_def

lemmas ship_defs =
  new_Ship_def setShieldLevel_def recalculateSpeedStats_def resetInvulnBlink_def
  resetSpeedLevel_def clamp_def decreaseShieldLevel_def

lemmas state_defs =
  play_state_def last_life_state_def over_state_def ram_state_def crowded_state_def
  veteran_state_def pierce_state_def
  new_Game_def createInitialState_def rock_def asteroid_radius_def

lemma updateHighScore_fields [simp]:
  "mode (updateHighScore sc G) = mode G"
  "wave (updateHighScore sc G) = wave G"
  "score (updateHighScore sc G) = score G"
  "lives (updateHighScore sc G) = lives G"
  "ship (updateHighScore sc G) = ship G"
  "bullets (updateHighScore sc G) = bullets G"
  "asteroids (updateHighScore sc G) = asteroids G"
  "powerups (updateHighScore sc G) = powerups G"
  "ufo (updateHighScore sc G) = ufo G"
  "ufoBullets (updateHighScore sc G) = ufoBullets G"
  "random (updateHighScore sc G) = random G"
  by (simp_all add: updateHighScore_def Let_def)


text \<open>
  What the scan returns: index \<open>j\<close> exactly when the asteroid there is alive and
  overlaps, and no earlier asteroid is both.
\<close>

lemma firstHit_from_Some:
  "firstHit_from e as i = Some j \<longleftrightarrow>
     (i \<le> j \<and> j - i < length as \<and> \<not> dead (as ! (j - i)) \<and> circleHit e (as ! (j - i))
      \<and> (\<forall>k < j - i. dead (as ! k) \<or> \<not> circleHit e (as ! k)))"
proof (induction as arbitrary: i)
  case Nil
  then show ?case by simp
next
  case (Cons a as)
  show ?case
  proof (cases "\<not> dead a \<and> circleHit e a")
    case True
    then have "firstHit_from e (a # as) i = Some i" by simp
    moreover have "(i \<le> j \<and> j - i < length (a # as) \<and> \<not> dead ((a # as) ! (j - i))
        \<and> circleHit e ((a # as) ! (j - i))
        \<and> (\<forall>k < j - i. dead ((a # as) ! k) \<or> \<not> circleHit e ((a # as) ! k))) \<longleftrightarrow> j = i"
      using True by (cases "j - i") auto
    ultimately show ?thesis by auto
  next
    case False
    then have f: "firstHit_from e (a # as) i = firstHit_from e as (Suc i)" by auto
    have "(Suc i \<le> j \<and> j - Suc i < length as \<and> \<not> dead (as ! (j - Suc i))
        \<and> circleHit e (as ! (j - Suc i))
        \<and> (\<forall>k < j - Suc i. dead (as ! k) \<or> \<not> circleHit e (as ! k)))
      \<longleftrightarrow> (i \<le> j \<and> j - i < length (a # as) \<and> \<not> dead ((a # as) ! (j - i))
        \<and> circleHit e ((a # as) ! (j - i))
        \<and> (\<forall>k < j - i. dead ((a # as) ! k) \<or> \<not> circleHit e ((a # as) ! k)))"
      (is "?L \<longleftrightarrow> ?R")
    proof
      assume l: ?L
      then have d: "j - i = Suc (j - Suc i)" by arith
      have "\<forall>k < j - i. dead ((a # as) ! k) \<or> \<not> circleHit e ((a # as) ! k)"
      proof (intro allI impI)
        fix k assume "k < j - i"
        then show "dead ((a # as) ! k) \<or> \<not> circleHit e ((a # as) ! k)"
          using l False d by (cases k) auto
      qed
      with l d show ?R by auto
    next
      assume rr: ?R
      then have "j - i \<noteq> 0" using False by (cases "j - i") auto
      then have d: "j - i = Suc (j - Suc i)" by arith
      have "\<forall>k < j - Suc i. dead (as ! k) \<or> \<not> circleHit e (as ! k)"
      proof (intro allI impI)
        fix k assume "k < j - Suc i"
        then have "Suc k < j - i" using d by arith
        with rr have "dead ((a # as) ! Suc k) \<or> \<not> circleHit e ((a # as) ! Suc k)" by blast
        then show "dead (as ! k) \<or> \<not> circleHit e (as ! k)" by simp
      qed
      with rr d show ?L by auto
    qed
    with f Cons.IH[of "Suc i"] show ?thesis by simp
  qed
qed

lemma firstHit_from_0:
  "firstHit_from e as 0 = Some j \<longleftrightarrow>
     (j < length as \<and> \<not> dead (as ! j) \<and> circleHit e (as ! j)
      \<and> (\<forall>k < j. dead (as ! k) \<or> \<not> circleHit e (as ! k)))"
  using firstHit_from_Some[of e as 0 j] by simp

lemma wrap_fl_exact: "wrap_fl (\<lambda>a. a) v mx = wrap v mx"
  by (simp add: wrap_fl_def wrap_def)







lemma split_loop_props:
  "split_loop n a g = (parts, g') \<Longrightarrow>
   length parts = n \<and> (\<forall>c\<in>set parts. sizeIndex c = sizeIndex a + 1 \<and> x c = x a \<and> y c = y a
        \<and> colorVariant c = colorVariant a \<and> speedMultiplier c = speedMultiplier a
        \<and> \<not> dead c)"
proof (induction n arbitrary: g parts g')
  case 0
  then show ?case by simp
next
  case (Suc n)
  obtain child g1 where c: "new_Asteroid (x a) (y a) (sizeIndex a + 1)
                          (Some (colorVariant a)) (speedMultiplier a) g = (child, g1)"
    by (cases "new_Asteroid (x a) (y a) (sizeIndex a + 1)
                          (Some (colorVariant a)) (speedMultiplier a) g")
  obtain ps g2 where r: "split_loop n a g1 = (ps, g2)" by (cases "split_loop n a g1")
  from Suc.prems c r have p: "parts = child # ps" by simp
  from c have "sizeIndex child = sizeIndex a + 1 \<and> x child = x a \<and> y child = y a
        \<and> colorVariant child = colorVariant a \<and> speedMultiplier child = speedMultiplier a
        \<and> \<not> dead child"
    by (auto simp: new_Asteroid_def Let_def split: prod.splits)
  with Suc.IH[OF r] p show ?case by auto
qed


subsection \<open>Shield absorption and life loss\<close>

text \<open>
  C1, as amended. In a PLAY state whose ship has invulnerability \<open>\<le> 0\<close> and shield
  level 1, let \<open>j\<close> be the first asteroid in collection order that is alive and
  overlaps the ship. Then the ship-versus-hazard resolution reports that the ship
  survived, leaves the shield level at 0, sets the invulnerability to the short window
  \<open>SHIELD_HIT_INVULN\<close> (positive), leaves lives and mode unchanged, marks asteroid
  \<open>j\<close> dead, awards its tier score, and touches no other asteroid of the collection.
\<close>

theorem shield_absorbs_asteroid:
  assumes "invuln (ship S) \<le> 0" and "shieldLevel (ship S) = 1" and "mode S = PLAY"
    and "j < length (asteroids S)" and "\<not> dead (asteroids S ! j)"
    and "circleHit (ship S) (asteroids S ! j)"
    and "\<forall>k<j. dead (asteroids S ! k) \<or> \<not> circleHit (ship S) (asteroids S ! k)"
  shows "fst (handleShipHazardCollisions S)
     \<and> shieldLevel (ship (snd (handleShipHazardCollisions S))) = 0
     \<and> invuln (ship (snd (handleShipHazardCollisions S))) = SHIP_SHIELD_HIT_INVULN
     \<and> 0 < invuln (ship (snd (handleShipHazardCollisions S)))
     \<and> lives (snd (handleShipHazardCollisions S)) = lives S
     \<and> mode (snd (handleShipHazardCollisions S)) = PLAY
     \<and> dead (asteroids (snd (handleShipHazardCollisions S)) ! j)
     \<and> score (snd (handleShipHazardCollisions S))
         = score S + tierScore (sizeIndex (asteroids S ! j))
     \<and> (\<forall>k<length (asteroids S). k \<noteq> j \<longrightarrow>
           asteroids (snd (handleShipHazardCollisions S)) ! k = asteroids S ! k)"
proof -
  have f: "findShipAsteroidHit (ship S) (asteroids S) = Some j"
    unfolding findShipAsteroidHit_def firstHit_from_0 using assms by blast
  show ?thesis
    using assms(2,3,4)
    by (simp add: handleShipHazardCollisions_def shipAsteroid_block_def f damageShip_def Let_def
          asteroid_onShieldAbsorb_def decreaseShieldLevel_def resetInvulnBlink_def
          SHIP_SHIELD_HIT_INVULN_def tierScore_def SCORE_SMALL_def SCORE_MED_def
          SCORE_LARGE_def)
qed

theorem shield_absorbs_asteroid_witness:
  "invuln (ship ram_state) \<le> 0 \<and> shieldLevel (ship ram_state) = 1 \<and> mode ram_state = PLAY
   \<and> 0 < length (asteroids ram_state) \<and> sizeIndex (asteroids ram_state ! 0) = 0
   \<and> \<not> dead (asteroids ram_state ! 0) \<and> circleHit (ship ram_state) (asteroids ram_state ! 0)
   \<and> shieldLevel (ship (snd (handleShipHazardCollisions ram_state))) = 0
   \<and> 0 < invuln (ship (snd (handleShipHazardCollisions ram_state)))
   \<and> lives (snd (handleShipHazardCollisions ram_state)) = lives ram_state
   \<and> dead (asteroids (snd (handleShipHazardCollisions ram_state)) ! 0)"
proof -
  have h: "invuln (ship ram_state) \<le> 0" "shieldLevel (ship ram_state) = 1"
      "mode ram_state = PLAY" "0 < length (asteroids ram_state)"
      "\<not> dead (asteroids ram_state ! 0)"
      "circleHit (ship ram_state) (asteroids ram_state ! 0)"
      "\<forall>k<0. dead (asteroids ram_state ! k) \<or> \<not> circleHit (ship ram_state) (asteroids ram_state ! k)"
    by (simp_all add: state_defs ship_defs config_values circleHit_def)
  have t: "sizeIndex (asteroids ram_state ! 0) = 0" by (simp add: state_defs)
  from shield_absorbs_asteroid[OF h] h t show ?thesis by blast
qed

text \<open>
  The claim as stated fails where an earlier asteroid overlaps the ship too: the small
  rock at index 0 takes the hit, and the tier-0 rock at index 1, which the ship
  overlaps, is neither marked dead nor split (the collection keeps its three entries).
\<close>

theorem shield_absorbs_asteroid_counterexample:
  "invuln (ship crowded_state) \<le> 0 \<and> shieldLevel (ship crowded_state) = 1
   \<and> mode crowded_state = PLAY
   \<and> sizeIndex (asteroids crowded_state ! 1) = 0 \<and> \<not> dead (asteroids crowded_state ! 1)
   \<and> circleHit (ship crowded_state) (asteroids crowded_state ! 1)
   \<and> map dead (asteroids (snd (handleShipHazardCollisions crowded_state)))
       = [True, False, False]
   \<and> map sizeIndex (asteroids (snd (handleShipHazardCollisions crowded_state))) = [2, 0, 1]"
  by (simp add: state_defs ship_defs config_values handleShipHazardCollisions_def
        shipAsteroid_block_def shipUfo_block_def laser_loop.simps[of 0] findShipAsteroidHit_def circleHit_def damageShip_def asteroid_onShieldAbsorb_def
        updateHighScore_def Let_def)

text \<open>
  Where the tier-0 rock is the one that takes the hit, it is marked dead and the
  collection still has its single entry: this path does not call \<open>split\<close>.
\<close>

lemma ram_state_collection:
  "map dead (asteroids (snd (handleShipHazardCollisions ram_state))) = [True]
   \<and> map sizeIndex (asteroids (snd (handleShipHazardCollisions ram_state))) = [0]"
  by (simp add: state_defs ship_defs config_values handleShipHazardCollisions_def
        shipAsteroid_block_def shipUfo_block_def laser_loop.simps[of 0] findShipAsteroidHit_def circleHit_def damageShip_def asteroid_onShieldAbsorb_def
        updateHighScore_def Let_def)

text \<open>
  C2. For a damaging hit resolved in PLAY (\<open>damageShip\<close>, called with no callback or
  with the asteroid callback): with shield level \<open>> 0\<close> the shield level drops by
  exactly 1 and lives are unchanged; with shield level 0 lives drop by exactly 1, the
  mode becomes GAME_OVER if and only if the resulting lives are \<open>\<le> 0\<close>, and
  otherwise the mode stays PLAY and the ship is a freshly constructed one.
\<close>

theorem damageShip_shield_or_life:
  assumes "mode S = PLAY" and "cb = None \<or> cb = Some (asteroid_onShieldAbsorb j)"
  shows "(0 < shieldLevel (ship S) \<longrightarrow>
            shieldLevel (ship (snd (damageShip cb bonus S))) = shieldLevel (ship S) - 1
            \<and> lives (snd (damageShip cb bonus S)) = lives S)
       \<and> (shieldLevel (ship S) = 0 \<longrightarrow>
            lives (snd (damageShip cb bonus S)) = lives S - 1
            \<and> (mode (snd (damageShip cb bonus S)) = GAME_OVER
                 \<longleftrightarrow> lives (snd (damageShip cb bonus S)) \<le> 0)
            \<and> (\<not> lives (snd (damageShip cb bonus S)) \<le> 0 \<longrightarrow>
                 mode (snd (damageShip cb bonus S)) = PLAY
                 \<and> ship (snd (damageShip cb bonus S))
                     = resetSpeedLevel (new_Ship (CANVAS_W / 2) (CANVAS_H / 2) True)))"
  using assms
  by (auto simp: damageShip_def Let_def asteroid_onShieldAbsorb_def decreaseShieldLevel_def
        resetInvulnBlink_def)

theorem damageShip_shield_or_life_witness:
  "mode ram_state = PLAY \<and> 0 < shieldLevel (ship ram_state)
   \<and> shieldLevel (ship (snd (damageShip (Some (asteroid_onShieldAbsorb 0)) 20 ram_state)))
       = shieldLevel (ship ram_state) - 1
   \<and> lives (snd (damageShip (Some (asteroid_onShieldAbsorb 0)) 20 ram_state)) = lives ram_state
   \<and> mode play_state = PLAY \<and> shieldLevel (ship play_state) = 0
   \<and> lives (snd (damageShip None 0 play_state)) = lives play_state - 1
   \<and> \<not> lives (snd (damageShip None 0 play_state)) \<le> 0
   \<and> mode (snd (damageShip None 0 play_state)) = PLAY
   \<and> mode last_life_state = PLAY \<and> shieldLevel (ship last_life_state) = 0
   \<and> lives (snd (damageShip None 0 last_life_state)) \<le> 0
   \<and> mode (snd (damageShip None 0 last_life_state)) = GAME_OVER"
proof -
  have a: "mode ram_state = PLAY" "0 < shieldLevel (ship ram_state)"
    by (simp_all add: state_defs)
  have b: "mode play_state = PLAY" "shieldLevel (ship play_state) = 0" "lives play_state = 3"
    by (simp_all add: state_defs ship_defs config_values)
  have c: "mode last_life_state = PLAY" "shieldLevel (ship last_life_state) = 0"
      "lives last_life_state = 1"
    by (simp_all add: state_defs ship_defs config_values)
  from damageShip_shield_or_life[OF a(1), of "Some (asteroid_onShieldAbsorb 0)" 0 20]
       damageShip_shield_or_life[OF b(1), of None 0 0]
       damageShip_shield_or_life[OF c(1), of None 0 0] a b c
  show ?thesis by simp
qed


subsection \<open>Movement and wrap\<close>





subsection \<open>Asteroid split and ship fire\<close>

text \<open>
  C6. \<open>split\<close> on a tier-0 asteroid returns exactly \<open>SPLIT_COUNT\<close> asteroids, each
  of tier 1, at the parent's position, with the parent's colour variant and speed
  multiplier; on a tier-2 asteroid it returns no children.
\<close>

theorem split_children:
  "(sizeIndex a = 0 \<longrightarrow>
      length (fst (split a g)) = ASTEROID_SPLIT_COUNT
      \<and> (\<forall>c \<in> set (fst (split a g)).
            sizeIndex c = 1 \<and> x c = x a \<and> y c = y a
            \<and> colorVariant c = colorVariant a \<and> speedMultiplier c = speedMultiplier a))
   \<and> (sizeIndex a = 2 \<longrightarrow> fst (split a g) = [])"
proof -
  obtain parts g' where s: "split_loop ASTEROID_SPLIT_COUNT a g = (parts, g')"
    by (cases "split_loop ASTEROID_SPLIT_COUNT a g")
  from split_loop_props[OF s] show ?thesis
    by (auto simp: split_def ASTEROID_SIZES_def s)
qed

theorem split_children_witness:
  "sizeIndex (rock 100 50 0) = 0
   \<and> length (fst (split (rock 100 50 0) half_rng)) = ASTEROID_SPLIT_COUNT
   \<and> list_all (\<lambda>c. sizeIndex c = 1 \<and> x c = x (rock 100 50 0) \<and> y c = y (rock 100 50 0)
                   \<and> colorVariant c = colorVariant (rock 100 50 0)
                   \<and> speedMultiplier c = speedMultiplier (rock 100 50 0))
        (fst (split (rock 100 50 0) half_rng))
   \<and> sizeIndex (rock 100 50 2) = 2
   \<and> fst (split (rock 100 50 2) half_rng) = []"
proof -
  have "sizeIndex (rock 100 50 0) = 0" "sizeIndex (rock 100 50 2) = 2"
    by (simp_all add: rock_def)
  with split_children[of "rock 100 50 0" half_rng] split_children[of "rock 100 50 2" half_rng]
  show ?thesis unfolding list_all_iff by blast
qed

text \<open>
  C7. A ship whose weapon mode is "five" fires exactly 5 bullets, at the angles
  \<open>baseAngle + k * SPREAD_RAD\<close> for \<open>k = -2, -1, 0, 1, 2\<close> in that order, all
  created at the nose position, \<open>r + 2\<close> ahead of the ship's centre along its facing.
\<close>

theorem fire_five:
  assumes "weaponMode s = MODE_FIVE"
  shows "length (fst (fire s)) = 5
     \<and> map angle_b (fst (fire s)) =
         [angle s + (- 2) * WEAPON_SPREAD_RAD, angle s + (- 1) * WEAPON_SPREAD_RAD,
          angle s + 0 * WEAPON_SPREAD_RAD,
          angle s + 1 * WEAPON_SPREAD_RAD, angle s + 2 * WEAPON_SPREAD_RAD]
     \<and> (\<forall>b \<in> set (fst (fire s)).
           x b = x s + cos (angle s) * (r s + 2) \<and> y b = y s + sin (angle s) * (r s + 2))"
  using assms by (simp add: fire_def Let_def new_Bullet_def)

theorem fire_five_witness:
  "weaponMode five_ship = MODE_FIVE \<and> length (fst (fire five_ship)) = 5
   \<and> map angle_b (fst (fire five_ship)) =
         [angle five_ship + (- 2) * WEAPON_SPREAD_RAD,
          angle five_ship + (- 1) * WEAPON_SPREAD_RAD,
          angle five_ship + 0 * WEAPON_SPREAD_RAD,
          angle five_ship + 1 * WEAPON_SPREAD_RAD,
          angle five_ship + 2 * WEAPON_SPREAD_RAD]"
proof -
  have h: "weaponMode five_ship = MODE_FIVE"
    by (simp add: five_ship_def)
  from fire_five[OF h] h show ?thesis by blast
qed


subsection \<open>The state machine\<close>

text \<open>
  C8. A tick in MENU leaves the whole state unchanged unless the start command (Enter or
  Space) was pressed on that tick, in which case it is exactly \<open>startGame\<close>; a tick in
  GAME_OVER leaves the whole state unchanged unless Enter was pressed on that tick, in
  which case it is exactly \<open>reset\<close>. No world simulation runs in either mode.
\<close>

theorem update_menu_gameover:
  "(mode G = MENU \<longrightarrow>
      update dt inp G
        = (if pressed inp ''Enter'' \<or> pressed inp ''Space'' then startGame G else G))
   \<and> (mode G = GAME_OVER \<longrightarrow>
      update dt inp G = (if pressed inp ''Enter'' then reset G else G))"
  by (simp add: update_def)

theorem update_menu_gameover_witness:
  "mode (new_Game half_rng) = MENU
   \<and> \<not> (pressed no_input ''Enter'' \<or> pressed no_input ''Space'')
   \<and> update (1 / 120) no_input (new_Game half_rng) = new_Game half_rng
   \<and> mode over_state = GAME_OVER \<and> \<not> pressed no_input ''Enter''
   \<and> update (1 / 120) no_input over_state = over_state"
proof -
  have h: "mode (new_Game half_rng) = MENU" "mode over_state = GAME_OVER"
      "\<not> pressed no_input ''Enter''" "\<not> pressed no_input ''Space''"
    by (simp_all add: state_defs pressed_def no_input_def)
  with update_menu_gameover[of "new_Game half_rng" "1 / 120" no_input]
       update_menu_gameover[of over_state "1 / 120" no_input]
  show ?thesis by simp
qed

text \<open>
  C10. \<open>startGame\<close> called in any mode other than MENU returns at once and leaves the
  entire state unchanged.
\<close>

theorem startGame_noop: "mode G \<noteq> MENU \<Longrightarrow> startGame G = G"
  by (simp add: startGame_def)

theorem startGame_noop_witness:
  "mode play_state \<noteq> MENU \<and> startGame play_state = play_state
   \<and> mode over_state \<noteq> MENU \<and> startGame over_state = over_state"
proof -
  have h: "mode play_state \<noteq> MENU" "mode over_state \<noteq> MENU"
    by (simp_all add: state_defs)
  from startGame_noop[OF h(1)] startGame_noop[OF h(2)] h show ?thesis by blast
qed



subsection \<open>Every step of a PLAY tick maintains the invariant\<close>

lemma advances_refl: "advances h0 S S"
  by (simp add: advances_def)

lemma advances_trans: "advances h0 S T \<Longrightarrow> advances h0 T U \<Longrightarrow> advances h0 S U"
  by (auto simp: advances_def)

lemma advances_same:
  "wave T = wave S \<Longrightarrow> score T = score S \<Longrightarrow> highScore T = highScore S
   \<Longrightarrow> game_highScore T = game_highScore S \<Longrightarrow> advances h0 S T"
  by (simp add: advances_def)

lemma advances_updateHighScore: "advances h0 S (updateHighScore (score S) S)"
  by (auto simp: advances_def updateHighScore_def Let_def)

lemma advances_addBonus: "0 \<le> b \<Longrightarrow> advances h0 S (addBonus b S)"
  by (auto simp: advances_def addBonus_def updateHighScore_def Let_def)

lemma advances_fold:
  "(\<And>i S. advances h0 S (f i S)) \<Longrightarrow> advances h0 S (fold f xs S)"
proof (induction xs arbitrary: S)
  case Nil
  then show ?case by (simp add: advances_refl)
next
  case (Cons a xs)
  have "advances h0 S (f a S)" by (rule Cons.prems)
  moreover have "advances h0 (f a S) (fold f xs (f a S))" by (rule Cons.IH) (rule Cons.prems)
  ultimately show ?case using advances_trans by simp
qed

lemma tierScore_nonneg: "0 \<le> tierScore k"
  by (simp add: tierScore_def SCORE_SMALL_def SCORE_MED_def SCORE_LARGE_def)

lemma advances_bulletAsteroid_onHit: "advances h0 S (bulletAsteroid_onHit i j S)"
proof -
  define t where "t = tierScore (sizeIndex ((asteroids S)[j := (asteroids S ! j)\<lparr>dead := True\<rparr>] ! j))"
  have "0 \<le> t" by (simp add: t_def tierScore_nonneg)
  then show ?thesis
    by (auto simp: advances_def bulletAsteroid_onHit_def updateHighScore_def Let_def
        t_def[symmetric] split: prod.splits)
qed

lemma advances_bulletAsteroid_step:
  "advances h0 S (bulletAsteroid_step bulletAsteroid_onHit i S)"
  by (simp add: bulletAsteroid_step_def Let_def advances_refl advances_bulletAsteroid_onHit
      split: option.splits)

lemma advances_bulletUfo_step: "advances h0 S (bulletUfo_step i S)"
  by (auto simp: advances_def bulletUfo_step_def updateHighScore_def Let_def UFO_SCORE_VALUE_def
      split: option.splits prod.splits)

lemma advances_handleBulletCollisions: "advances h0 S (handleBulletCollisions S)"
  unfolding handleBulletCollisions_def Let_def forEachBulletAsteroidHit_def
  by (rule advances_trans[OF advances_fold advances_fold])
     (rule advances_bulletAsteroid_step, rule advances_bulletUfo_step)

lemma advances_damageShip:
  assumes "0 \<le> b" and "cb = None \<or> cb = Some (asteroid_onShieldAbsorb j)"
  shows "advances h0 S (snd (damageShip cb b S))"
  using assms
  by (auto simp: advances_def damageShip_def updateHighScore_def Let_def
        asteroid_onShieldAbsorb_def)

lemma damageShip_not_survived:
  "\<not> fst (damageShip cb b S) \<Longrightarrow> mode (snd (damageShip cb b S)) = GAME_OVER"
  by (auto simp: damageShip_def Let_def split: if_splits)


lemma laser_loop_props:
  "advances h0 S (snd (laser_loop i S))
   \<and> (fst (laser_loop i S) \<longrightarrow> mode (snd (laser_loop i S)) = GAME_OVER)"
proof (induction i S rule: laser_loop.induct)
  case (1 i S)
  show ?case
  proof (cases "i \<ge> length (ufoBullets S)")
    case True
    then show ?thesis by (simp add: laser_loop.simps[of i S] advances_refl)
  next
    case False
    let ?l = "ufoBullets S ! i"
    show ?thesis
    proof (cases "dead ?l \<or> \<not> circleHit (ship S) ?l \<or> invuln (ship S) > 0")
      case True
      then have "laser_loop i S = laser_loop (Suc i) S"
        using False by (auto simp: laser_loop.simps[of i S] Let_def)
      moreover have "advances h0 S (snd (laser_loop (Suc i) S))
   \<and> (fst (laser_loop (Suc i) S) \<longrightarrow> mode (snd (laser_loop (Suc i) S)) = GAME_OVER)"
        using True False "1.IH" by (auto simp: Let_def)
      ultimately show ?thesis by simp
    next
      case hit: False
      let ?S1 = "S\<lparr>ufoBullets := (ufoBullets S)[i := ?l\<lparr>dead := True\<rparr>]\<rparr>"
      have e: "laser_loop i S =
         (if \<not> fst (damageShip None 0 ?S1) \<or> mode (snd (damageShip None 0 ?S1)) = GAME_OVER
          then (True, snd (damageShip None 0 ?S1)) else (False, snd (damageShip None 0 ?S1)))"
        using False hit by (auto simp: laser_loop.simps[of i S] Let_def split: prod.splits)
      have a: "advances h0 S ?S1" by (rule advances_same) simp_all
      have b: "advances h0 ?S1 (snd (damageShip None 0 ?S1))"
        by (rule advances_damageShip) simp_all
      from advances_trans[OF a b] damageShip_not_survived[of None 0 ?S1] show ?thesis
        by (auto simp: e)
    qed
  qed
qed

lemma shipAsteroid_block_props:
  "advances h0 S (snd (shipAsteroid_block S))
   \<and> (fst (shipAsteroid_block S) \<longrightarrow> mode (snd (shipAsteroid_block S)) = GAME_OVER)"
proof (cases "findShipAsteroidHit (ship S) (asteroids S)")
  case None
  then show ?thesis by (simp add: shipAsteroid_block_def advances_refl)
next
  case (Some j)
  let ?b = "tierScore (sizeIndex (asteroids S ! j))"
  let ?D = "damageShip (Some (asteroid_onShieldAbsorb j)) ?b S"
  have e: "shipAsteroid_block S = (\<not> fst ?D \<or> mode (snd ?D) = GAME_OVER, snd ?D)"
    by (simp add: shipAsteroid_block_def Some Let_def tierScore_def case_prod_beta)
  have "advances h0 S (snd ?D)"
    by (rule advances_damageShip[where j = j]) (simp_all add: tierScore_nonneg)
  with damageShip_not_survived[of "Some (asteroid_onShieldAbsorb j)" ?b S]
  show ?thesis unfolding e by auto
qed

lemma shipUfo_block_props:
  "advances h0 S (snd (shipUfo_block S))
   \<and> (fst (shipUfo_block S) \<longrightarrow> mode (snd (shipUfo_block S)) = GAME_OVER)"
proof -
  have "advances h0 S (snd (damageShip None 0 S))"
    by (rule advances_damageShip[where j = 0]) simp_all
  with damageShip_not_survived[of None 0 S] show ?thesis
    by (auto simp: shipUfo_block_def advances_refl Let_def case_prod_beta split: option.splits)
qed

lemma handleShipHazardCollisions_props:
  "advances h0 S (snd (handleShipHazardCollisions S))
   \<and> (\<not> fst (handleShipHazardCollisions S)
        \<longrightarrow> mode (snd (handleShipHazardCollisions S)) = GAME_OVER)"
proof -
  obtain r1 S1 where a: "shipAsteroid_block S = (r1, S1)" by (cases "shipAsteroid_block S")
  obtain r2 S2 where b: "shipUfo_block S1 = (r2, S2)" by (cases "shipUfo_block S1")
  obtain r3 S3 where c: "laser_loop 0 S2 = (r3, S3)" by (cases "laser_loop 0 S2")
  from shipAsteroid_block_props[of h0 S] a
  have A: "advances h0 S S1" "r1 \<longrightarrow> mode S1 = GAME_OVER" by simp_all
  from shipUfo_block_props[of h0 S1] b
  have B: "advances h0 S1 S2" "r2 \<longrightarrow> mode S2 = GAME_OVER" by simp_all
  from laser_loop_props[of h0 S2 0] c
  have C: "advances h0 S2 S3" "r3 \<longrightarrow> mode S3 = GAME_OVER" by simp_all
  note AB = advances_trans[OF A(1) B(1)]
  note ABC = advances_trans[OF AB C(1)]
  show ?thesis
    using A B C AB ABC
    by (simp add: handleShipHazardCollisions_def a b c)
qed

lemma powerup_duplicateScore_nonneg: "0 \<le> powerup_duplicateScore t"
  by (cases t) (simp_all add: powerup_duplicateScore_def POWERUP_types_def)

lemma advances_ship_update: "advances h0 S U \<Longrightarrow> advances h0 S (U\<lparr>ship := sh\<rparr>)"
  by (simp add: advances_def)

lemma advances_addBonus_ship:
  "0 \<le> b \<Longrightarrow> advances h0 S U \<Longrightarrow> advances h0 S (addBonus b (U\<lparr>ship := sh\<rparr>))"
  by (rule advances_trans[OF advances_ship_update advances_addBonus])

lemma advances_powerup_step: "advances h0 S (powerup_step i S)"
proof -
  let ?S2 = "S\<lparr>powerups := (powerups S)[i := (powerups S ! i)\<lparr>dead := True\<rparr>],
               powerupsCollected := powerupsCollected S + 1\<rparr>"
  have s2: "advances h0 S ?S2" by (rule advances_same) simp_all
  note n = powerup_duplicateScore_nonneg
  have b: "advances h0 S (addBonus (powerup_duplicateScore t) ?S2)" for t
    by (rule advances_trans[OF s2 advances_addBonus[OF n]])
  have bs: "advances h0 S (addBonus (powerup_duplicateScore t) (?S2\<lparr>ship := sh\<rparr>))" for t sh
    by (rule advances_addBonus_ship[OF n s2])
  have w: "advances h0 S (?S2\<lparr>ship := sh\<rparr>)" for sh
    by (rule advances_ship_update[OF s2])
  have l: "advances h0 S (?S2\<lparr>lives := n\<rparr>)" for n
    by (rule advances_same) simp_all
  show ?thesis
  proof (cases "\<not> dead (powerups S ! i) \<and> circleHit (ship S) (powerups S ! i)")
    case False
    then show ?thesis by (auto simp: powerup_step_def Let_def advances_refl)
  next
    case True
    then show ?thesis
      using b bs w l s2
      by (cases "ptype (powerups S ! i)")
         (simp_all add: powerup_step_def Let_def case_prod_beta)
  qed
qed

lemma advances_handlePowerupCollisions: "advances h0 S (handlePowerupCollisions S)"
  unfolding handlePowerupCollisions_def by (rule advances_fold) (rule advances_powerup_step)

lemma spawnUfo_keeps [simp]:
  "wave (spawnUfoForCurrentWave S) = wave S"
  "score (spawnUfoForCurrentWave S) = score S"
  "highScore (spawnUfoForCurrentWave S) = highScore S"
  "game_highScore (spawnUfoForCurrentWave S) = game_highScore S"
  "mode (spawnUfoForCurrentWave S) = mode S"
  by (simp_all add: spawnUfoForCurrentWave_def Let_def case_prod_beta)

lemma tick_ufoTimer_keeps [simp]:
  "wave (tick_ufoTimer dt S) = wave S"
  "score (tick_ufoTimer dt S) = score S"
  "highScore (tick_ufoTimer dt S) = highScore S"
  "game_highScore (tick_ufoTimer dt S) = game_highScore S"
  "mode (tick_ufoTimer dt S) = mode S"
  by (simp_all add: tick_ufoTimer_def Let_def split: option.splits)

lemma tick_ufo_keeps [simp]:
  "wave (tick_ufo dt S) = wave S"
  "score (tick_ufo dt S) = score S"
  "highScore (tick_ufo dt S) = highScore S"
  "game_highScore (tick_ufo dt S) = game_highScore S"
  "mode (tick_ufo dt S) = mode S"
  by (simp_all add: tick_ufo_def Let_def case_prod_beta split: option.splits)

lemma tick_shooting_keeps [simp]:
  "wave (tick_shooting inp S) = wave S"
  "score (tick_shooting inp S) = score S"
  "highScore (tick_shooting inp S) = highScore S"
  "game_highScore (tick_shooting inp S) = game_highScore S"
  "mode (tick_shooting inp S) = mode S"
  by (simp_all add: tick_shooting_def Let_def case_prod_beta)

lemma tick_movement_keeps [simp]:
  "wave (tick_movement dt inp S) = wave S"
  "score (tick_movement dt inp S) = score S"
  "highScore (tick_movement dt inp S) = highScore S"
  "game_highScore (tick_movement dt inp S) = game_highScore S"
  "mode (tick_movement dt inp S) = mode S"
  by (simp_all add: tick_movement_def tick_wrap_def tick_lasers_def tick_entities_def
        tick_ship_def)

lemma advances_tick_movement: "advances h0 S (tick_movement dt inp S)"
  by (rule advances_same) simp_all

lemma simulate_props:
  "advances h0 S (snd (simulate dt inp S))
   \<and> (\<not> fst (simulate dt inp S) \<longrightarrow> mode (snd (simulate dt inp S)) = GAME_OVER)"
proof -
  let ?S8 = "handleBulletCollisions (tick_movement dt inp S)"
  have a8: "advances h0 S ?S8"
    by (rule advances_trans[OF advances_tick_movement advances_handleBulletCollisions])
  obtain sv S9 where h: "handleShipHazardCollisions ?S8 = (sv, S9)"
    by (cases "handleShipHazardCollisions ?S8")
  from handleShipHazardCollisions_props[of h0 ?S8] h
  have a9: "advances h0 ?S8 S9" "\<not> sv \<longrightarrow> mode S9 = GAME_OVER" by simp_all
  have p: "advances h0 T (updateHighScore (score (handlePowerupCollisions T))
                           (handlePowerupCollisions T))" for T
    by (rule advances_trans[OF advances_handlePowerupCollisions advances_updateHighScore])
  show ?thesis
    using a8 advances_trans[OF a8 a9(1)] a9(2) advances_trans[OF a8 p]
      advances_trans[OF advances_trans[OF a8 a9(1)] p]
    by (auto simp: simulate_def Let_def h)
qed

lemma cleanup_keeps [simp]:
  "wave (cleanup S) = wave S"
  "score (cleanup S) = score S"
  "highScore (cleanup S) = highScore S"
  "game_highScore (cleanup S) = game_highScore S"
  "mode (cleanup S) = mode S"
  by (simp_all add: cleanup_def)

lemma new_Asteroid_tier:
  "sizeIndex (fst (new_Asteroid px py si cv sm g)) = si
   \<and> \<not> dead (fst (new_Asteroid px py si cv sm g))"
  by (simp add: new_Asteroid_def Let_def case_prod_beta)

lemma spawnWave_body_props:
  "wave (spawnWave_body sm S) = wave S \<and> score (spawnWave_body sm S) = score S
   \<and> highScore (spawnWave_body sm S) = highScore S
   \<and> game_highScore (spawnWave_body sm S) = game_highScore S
   \<and> mode (spawnWave_body sm S) = mode S
   \<and> (\<exists>a. asteroids (spawnWave_body sm S) = asteroids S @ [a] \<and> sizeIndex a = 0 \<and> \<not> dead a)"
  by (simp add: spawnWave_body_def Let_def case_prod_beta new_Asteroid_tier)

lemma spawnWave_loop_props:
  "wave (spawnWave_loop n sm S) = wave S \<and> score (spawnWave_loop n sm S) = score S
   \<and> highScore (spawnWave_loop n sm S) = highScore S
   \<and> game_highScore (spawnWave_loop n sm S) = game_highScore S
   \<and> mode (spawnWave_loop n sm S) = mode S
   \<and> (\<exists>new. asteroids (spawnWave_loop n sm S) = asteroids S @ new \<and> length new = n
        \<and> (\<forall>a\<in>set new. sizeIndex a = 0 \<and> \<not> dead a))"
proof (induction n arbitrary: S)
  case 0
  then show ?case by simp
next
  case (Suc n)
  from spawnWave_body_props[of sm S] obtain a where
    b: "asteroids (spawnWave_body sm S) = asteroids S @ [a]" "sizeIndex a = 0" "\<not> dead a"
    by blast
  from Suc.IH[of "spawnWave_body sm S"] obtain new where
    n: "asteroids (spawnWave_loop n sm (spawnWave_body sm S))
          = asteroids (spawnWave_body sm S) @ new" "length new = n"
       "\<forall>a\<in>set new. sizeIndex a = 0 \<and> \<not> dead a"
    by blast
  have "asteroids (spawnWave_loop (Suc n) sm S) = asteroids S @ (a # new)
      \<and> length (a # new) = Suc n \<and> (\<forall>a\<in>set (a # new). sizeIndex a = 0 \<and> \<not> dead a)"
    using b n by simp
  then have "\<exists>new. asteroids (spawnWave_loop (Suc n) sm S) = asteroids S @ new
      \<and> length new = Suc n \<and> (\<forall>a\<in>set new. sizeIndex a = 0 \<and> \<not> dead a)"
    by blast
  with Suc.IH[of "spawnWave_body sm S"] spawnWave_body_props[of sm S] show ?case by simp
qed

lemma maybeSpawnPowerUp_loop_keeps:
  "wave (maybeSpawnPowerUp_loop ts S) = wave S
   \<and> score (maybeSpawnPowerUp_loop ts S) = score S
   \<and> highScore (maybeSpawnPowerUp_loop ts S) = highScore S
   \<and> game_highScore (maybeSpawnPowerUp_loop ts S) = game_highScore S
   \<and> mode (maybeSpawnPowerUp_loop ts S) = mode S
   \<and> asteroids (maybeSpawnPowerUp_loop ts S) = asteroids S"
proof (induction ts arbitrary: S)
  case Nil
  then show ?case by simp
next
  case (Cons a ts)
  obtain t rules where a: "a = (t, rules)" by (cases a)
  show ?case unfolding a
    by (simp add: Let_def case_prod_beta Cons.IH)
qed

lemma resetUfoStateForWave_keeps [simp]:
  "wave (resetUfoStateForWave S) = wave S"
  "score (resetUfoStateForWave S) = score S"
  "highScore (resetUfoStateForWave S) = highScore S"
  "game_highScore (resetUfoStateForWave S) = game_highScore S"
  "mode (resetUfoStateForWave S) = mode S"
  "asteroids (resetUfoStateForWave S) = asteroids S"
  by (simp_all add: resetUfoStateForWave_def Let_def)

lemma progression_keeps [simp]:
  "score (progression S) = score S"
  "highScore (progression S) = highScore S"
  "game_highScore (progression S) = game_highScore S"
  "mode (progression S) = mode S"
  by (simp_all add: progression_def spawnWave_def maybeSpawnPowerUp_def Let_def
        maybeSpawnPowerUp_loop_keeps spawnWave_loop_props)

lemma progression_spawns:
  assumes "length (asteroids S) = 0" and "mode S = PLAY"
  shows "wave (progression S) = wave S + 1
     \<and> length (asteroids (progression S))
         = WAVES_START_COUNT + wave (progression S) * WAVES_GROWTH
     \<and> (\<forall>a\<in>set (asteroids (progression S)). sizeIndex a = 0 \<and> \<not> dead a)"
proof -
  let ?S1 = "S\<lparr>wave := wave S + 1\<rparr>"
  let ?n = "WAVES_START_COUNT + wave ?S1 * WAVES_GROWTH"
  let ?sm = "1 + real (wave ?S1) * ASTEROID_SPEED_GROWTH_PER_WAVE"
  from spawnWave_loop_props[of ?n ?sm ?S1] obtain new where
    n: "asteroids (spawnWave_loop ?n ?sm ?S1) = asteroids ?S1 @ new" "length new = ?n"
       "\<forall>a\<in>set new. sizeIndex a = 0 \<and> \<not> dead a"
       "wave (spawnWave_loop ?n ?sm ?S1) = wave S + 1"
    by auto
  have p: "progression S = resetUfoStateForWave (maybeSpawnPowerUp (spawnWave_loop ?n ?sm ?S1))"
    using assms by (simp add: progression_def spawnWave_def Let_def)
  show ?thesis
    unfolding p using n assms(1)
    by (simp add: maybeSpawnPowerUp_def maybeSpawnPowerUp_loop_keeps)
qed

text \<open>Evaluating a whole tick on the concrete states.\<close>

lemmas tick_defs =
  simulate_def tick_movement_def tick_wrap_def tick_lasers_def tick_ufo_def tick_ufoTimer_def
  tick_entities_def tick_shooting_def tick_ship_def Ship_update_def hypot_def
  isDown_def pressed_def no_input_def integrateAndWrap_def wrap_def
  handleBulletCollisions_def forEachBulletAsteroidHit_def handleShipHazardCollisions_def
  shipAsteroid_block_def shipUfo_block_def laser_loop.simps[of 0] findShipAsteroidHit_def
  handlePowerupCollisions_def updateHighScore_def cleanup_def Let_def
  SHIP_FRICTION_def SHIP_TURN_SPEED_def SHIP_INVULN_BLINK_INTERVAL_def

lemmas bullet_defs =
  new_Bullet_def Bullet_update_def Asteroid_update_def atan2_def
  BULLET_SPEED_def BULLET_RADIUS_def BULLET_LIFETIME_def
  bulletAsteroid_step_def bulletAsteroid_onHit_def bulletUfo_step_def circleHit_def
  tierScore_def split_def

lemma simulate_play_state:
  "fst (simulate (1 / 120) no_input play_state)
   \<and> asteroids (snd (simulate (1 / 120) no_input play_state)) = []
   \<and> mode (snd (simulate (1 / 120) no_input play_state)) = PLAY"
  by (simp add: state_defs ship_defs config_values tick_defs)

lemma simulate_veteran_state:
  "fst (simulate (1 / 120) no_input veteran_state)
   \<and> score (snd (simulate (1 / 120) no_input veteran_state)) = 100
   \<and> highScore (snd (simulate (1 / 120) no_input veteran_state)) = 5000
   \<and> map dead (asteroids (snd (simulate (1 / 120) no_input veteran_state))) = [True, False]
   \<and> mode (snd (simulate (1 / 120) no_input veteran_state)) = PLAY"
  by (simp add: state_defs ship_defs config_values tick_defs bullet_defs)

lemma update_play:
  "mode G = PLAY \<Longrightarrow>
   update dt inp G = (if fst (simulate dt inp G) then progression (cleanup (snd (simulate dt inp G)))
                      else snd (simulate dt inp G))"
  by (simp add: update_def case_prod_beta)



subsection \<open>Bullets against asteroids\<close>
































lemma bulletUfo_step_asteroids [simp]: "asteroids (bulletUfo_step k T) = asteroids T"
  by (simp add: bulletUfo_step_def Let_def case_prod_beta split: option.splits)

lemma fold_bulletUfo_asteroids [simp]: "asteroids (fold bulletUfo_step xs T) = asteroids T"
  by (induction xs arbitrary: T) simp_all














subsection \<open>Wave progression\<close>

text \<open>
  C4. In a PLAY tick the end-of-tick check looks at the state the simulation left, after
  the dead entities are filtered out. If its asteroid collection is empty and its mode is
  PLAY, the tick increments the wave index and the asteroid collection it leaves holds
  exactly \<open>START_COUNT + wave * GROWTH\<close> asteroids for the incremented index, all of
  tier 0. In every other case (also when the tick returned early, which happens only in
  GAME_OVER) the wave index is unchanged and the tick ends with the simulated state as it
  is, nothing spawned.
\<close>

theorem wave_advance:
  assumes "mode G = PLAY"
  shows "if length (asteroids (cleanup (snd (simulate dt inp G)))) = 0
            \<and> mode (cleanup (snd (simulate dt inp G))) = PLAY
         then wave (update dt inp G) = wave G + 1
              \<and> length (asteroids (update dt inp G))
                  = WAVES_START_COUNT + wave (update dt inp G) * WAVES_GROWTH
              \<and> (\<forall>a\<in>set (asteroids (update dt inp G)). sizeIndex a = 0 \<and> \<not> dead a)
         else wave (update dt inp G) = wave G
              \<and> (update dt inp G = cleanup (snd (simulate dt inp G))
                 \<or> update dt inp G = snd (simulate dt inp G))"
proof -
  let ?S1 = "snd (simulate dt inp G)"
  let ?C = "cleanup ?S1"
  from simulate_props[of 0 G dt inp]
  have w: "wave ?S1 = wave G" and e: "\<not> fst (simulate dt inp G) \<Longrightarrow> mode ?S1 = GAME_OVER"
    by (simp_all add: advances_def)
  show ?thesis
  proof (cases "length (asteroids ?C) = 0 \<and> mode ?C = PLAY")
    case True
    then have r: "fst (simulate dt inp G)" using e by auto
    from True progression_spawns[of ?C] w show ?thesis
      by (simp add: update_play[OF assms] r)
  next
    case False
    then have "progression ?C = ?C" by (auto simp: progression_def)
    with False w show ?thesis
      by (auto simp: update_play[OF assms])
  qed
qed


theorem wave_advance_witness:
  "mode play_state = PLAY
   \<and> length (asteroids (cleanup (snd (simulate (1 / 120) no_input play_state)))) = 0
   \<and> mode (cleanup (snd (simulate (1 / 120) no_input play_state))) = PLAY
   \<and> wave (update (1 / 120) no_input play_state) = wave play_state + 1
   \<and> length (asteroids (update (1 / 120) no_input play_state))
       = WAVES_START_COUNT + wave (update (1 / 120) no_input play_state) * WAVES_GROWTH
   \<and> list_all (\<lambda>a. sizeIndex a = 0) (asteroids (update (1 / 120) no_input play_state))
   \<and> mode veteran_state = PLAY
   \<and> length (asteroids (cleanup (snd (simulate (1 / 120) no_input veteran_state)))) \<noteq> 0
   \<and> wave (update (1 / 120) no_input veteran_state) = wave veteran_state"
proof -
  have p: "mode play_state = PLAY" "mode veteran_state = PLAY"
    by (simp_all add: state_defs)
  have c: "length (asteroids (cleanup (snd (simulate (1 / 120) no_input play_state)))) = 0
      \<and> mode (cleanup (snd (simulate (1 / 120) no_input play_state))) = PLAY"
    using simulate_play_state by (simp add: cleanup_def)
  have "map dead as = [True, False] \<Longrightarrow> length (filter (\<lambda>a. \<not> dead a) as) = 1"
    for as :: "asteroid list"
    by (auto simp: map_eq_Cons_conv)
  then have v: "length (asteroids (cleanup (snd (simulate (1 / 120) no_input veteran_state)))) \<noteq> 0"
    using simulate_veteran_state by (simp add: cleanup_def)
  from wave_advance[OF p(1), of "1 / 120" no_input] c
  have a: "wave (update (1 / 120) no_input play_state) = wave play_state + 1"
      "length (asteroids (update (1 / 120) no_input play_state))
         = WAVES_START_COUNT + wave (update (1 / 120) no_input play_state) * WAVES_GROWTH"
      "\<forall>a\<in>set (asteroids (update (1 / 120) no_input play_state)). sizeIndex a = 0 \<and> \<not> dead a"
    by simp_all
  from a(3) have l: "list_all (\<lambda>a. sizeIndex a = 0)
      (asteroids (update (1 / 120) no_input play_state))"
    by (simp add: list_all_iff)
  from wave_advance[OF p(2), of "1 / 120" no_input] v
  have b: "wave (update (1 / 120) no_input veteran_state) = wave veteran_state"
    by simp
  from p c v a(1,2) l b show ?thesis by blast
qed


subsection \<open>Score and high score\<close>










end
